theory Spec2Isabelle
  imports Main "HOL-Library.Sublist"
begin

section \<open>repoproxy: a caching gateway in front of upstream repositories\<close>

text \<open>
  A shallow embedding of \<^verbatim>\<open>repoproxyd.go\<close> and of the table \<^verbatim>\<open>cacheitem\<close> of
  \<^verbatim>\<open>repoproxy.sql\<close>. The request handler \<^verbatim>\<open>mainHandler\<close> becomes a function from the
  request path and the state of the world (the two tables, the cache directory tree, the
  log, the requests sent upstream) to a reply and the new state. Whatever the handler
  cannot decide itself (what the upstream answers, whether a database or file system call
  fails, how many bytes a sink accepts) is an input, collected in the record \<open>env\<close>.
\<close>

subsection \<open>Functions of the Go library used by the handler\<close>

text \<open>\<^verbatim>\<open>strings.TrimPrefix\<close>, \<^verbatim>\<open>strings.TrimSuffix\<close>: the string without the prefix
  (suffix) when it has it, the string itself otherwise.\<close>

definition TrimPrefix :: "string \<Rightarrow> string \<Rightarrow> string" where
  "TrimPrefix s p = (if prefix p s then drop (length p) s else s)"

definition TrimSuffix :: "string \<Rightarrow> string \<Rightarrow> string" where
  "TrimSuffix s p = (if suffix p s then take (length s - length p) s else s)"

text \<open>\<^verbatim>\<open>strings.SplitN(s, sep, 2)\<close> for a separator of one byte: the part before the first
  separator and the part after it, or the string alone when it has no separator.\<close>

definition SplitN2 :: "string \<Rightarrow> char \<Rightarrow> string list" where
  "SplitN2 s sep =
     (if sep \<in> set s
      then [takeWhile (\<lambda>c. c \<noteq> sep) s, tl (dropWhile (\<lambda>c. c \<noteq> sep) s)]
      else [s])"

text \<open>\<^verbatim>\<open>strconv.ParseInt(s, 10, 64)\<close> with its error dropped, as both call sites do
  (\<^verbatim>\<open>n, _ := strconv.ParseInt(...)\<close>): 0 on a syntax error, the nearest bound of
  \<^verbatim>\<open>int64\<close> on a range error.\<close>

definition is_digit :: "char \<Rightarrow> bool" where
  "is_digit c = (48 \<le> (of_char c :: nat) \<and> (of_char c :: nat) \<le> 57)"

definition digits_value :: "string \<Rightarrow> int" where
  "digits_value ds = foldl (\<lambda>acc c. 10 * acc + (int (of_char c) - 48)) 0 ds"

definition ParseInt :: "string \<Rightarrow> int" where
  "ParseInt s =
     (let neg = (s \<noteq> [] \<and> hd s = CHR ''-'');
          ds = (if s \<noteq> [] \<and> (hd s = CHR ''+'' \<or> hd s = CHR ''-'') then tl s else s)
      in if ds = [] \<or> \<not> list_all is_digit ds then 0
         else let un = digits_value ds
              in if \<not> neg \<and> 2 ^ 63 \<le> un then 2 ^ 63 - 1
                 else if neg \<and> 2 ^ 63 < un then - (2 ^ 63)
                 else if neg then - un else un)"

text \<open>\<^verbatim>\<open>filepath.Clean\<close>, \<^verbatim>\<open>filepath.Join\<close> and \<^verbatim>\<open>filepath.Dir\<close> on a Unix path.
  \<open>split_slash\<close> cuts a path at every \<^verbatim>\<open>/\<close>; \<open>clean_step\<close> keeps the cleaned components,
  last one first.\<close>

fun split_slash :: "string \<Rightarrow> string list" where
  "split_slash [] = [[]]"
| "split_slash (c # cs) =
     (if c = CHR ''/'' then [] # split_slash cs
      else (case split_slash cs of [] \<Rightarrow> [[c]] | w # ws \<Rightarrow> (c # w) # ws))"

fun join_slash :: "string list \<Rightarrow> string" where
  "join_slash [] = []"
| "join_slash [w] = w"
| "join_slash (w # ws) = w @ ''/'' @ join_slash ws"

definition clean_step :: "bool \<Rightarrow> string list \<Rightarrow> string \<Rightarrow> string list" where
  "clean_step rooted out c =
     (if c = [] \<or> c = ''.'' then out
      else if c = ''..'' then
        (if out \<noteq> [] \<and> hd out \<noteq> ''..'' then tl out
         else if rooted then out
         else c # out)
      else c # out)"

definition Clean :: "string \<Rightarrow> string" where
  "Clean p =
     (if p = [] then ''.''
      else let rooted = (hd p = CHR ''/'');
               body = join_slash (rev (foldl (clean_step rooted) [] (split_slash p)))
           in if rooted then CHR ''/'' # body
              else if body = [] then ''.'' else body)"

definition Join :: "string list \<Rightarrow> string" where
  "Join elems =
     (case dropWhile (\<lambda>e. e = []) elems of
        [] \<Rightarrow> []
      | e # es \<Rightarrow> Clean (join_slash (e # es)))"

definition Dir :: "string \<Rightarrow> string" where
  "Dir p = Clean (rev (dropWhile (\<lambda>c. c \<noteq> CHR ''/'') (rev p)))"

subsection \<open>The data: tables, cache directory, upstream answers\<close>

text \<open>A row of \<^verbatim>\<open>public.cacheitem\<close>. The serial \<^verbatim>\<open>rowid\<close>, which the program never
  reads or writes, is left out; \<^verbatim>\<open>updatedate\<close> is the value of \<^verbatim>\<open>NOW()\<close>. The table
  is the list of its rows in the order in which a query returns them: it has no unique
  constraint on \<^verbatim>\<open>(reponame, pathname)\<close>, so the list may hold one key twice.\<close>

record cacheitem_row =
  reponame :: string
  pathname :: string
  lastmodified :: string
  filesize :: int
  etag :: string
  updatedate :: nat

datatype db_error = ErrNoRows | ErrDB

text \<open>The cache directory tree: what is at a path, if anything.\<close>

datatype node = RegularFile string | Directory

type_synonym filesystem = "string \<rightharpoonup> node"

datatype os_error = ErrNotExist | ErrPermission | ErrNotDir | ErrIsDir

text \<open>The headers the handler reads from a response, each as \<^verbatim>\<open>Header.Get\<close> returns it:
  the empty string when the header is absent. \<^verbatim>\<open>Get("Etag")\<close> and \<^verbatim>\<open>Get("ETag")\<close> read
  the same header.\<close>

record headers =
  Last_Modified :: string
  Content_Length :: string
  Etag :: string
  Content_Type :: string

text \<open>The response to \<^verbatim>\<open>httpClient.Get\<close>: \<open>Status\<close> is the status line's text, such as
  \<^verbatim>\<open>503 Service Unavailable\<close>; \<open>Body\<close> lists what the successive reads of the body
  return, and \<open>BodyErr\<close> says that the last read ends with an error, not with EOF.\<close>

record get_response =
  StatusCode :: nat
  Status :: string
  Header :: headers
  Body :: "string list"
  BodyErr :: bool

text \<open>The state the handler reads and changes. \<open>logs\<close> keeps the tag of every line
  written to the logger and \<open>upstream\<close> the requests sent to the upstream, method and
  URL, oldest first.\<close>

record world =
  repomap :: "(string \<times> string) list"
  cacheitem :: "cacheitem_row list"
  fs :: filesystem
  logs :: "string list"
  upstream :: "(string \<times> string) list"

text \<open>What the handler does not control. A fault flag makes the call it names fail for a
  reason outside the state above (a lost connection, a cancelled context, a permission, a
  full disk). \<open>mkdir_fault = Some n\<close> makes \<^verbatim>\<open>os.MkdirAll\<close> fail at the directory it would
  create after \<open>n\<close> others. A sink with \<open>room = Some n\<close> accepts \<open>n\<close> more bytes and then
  fails.\<close>

record env =
  cacheDir :: string
  clock :: nat
  repomap_fault :: bool
  Head :: "string \<Rightarrow> unit + headers"
  Get :: "string \<Rightarrow> unit + get_response"
  mkdir_fault :: "nat option"
  lookup_fault :: bool
  stat_fault :: "os_error option"
  create_fault :: bool
  client_room :: "nat option"
  file_room :: "nat option"
  count_fault :: bool
  begin_fault :: bool
  exec_fault :: bool
  commit_fault :: bool

text \<open>What the client gets. \<open>HttpError code msg\<close> is \<^verbatim>\<open>http.Error(w, msg, code)\<close>: status
  \<open>code\<close> and the body \<open>msg\<close> followed by a newline. \<open>ServeFile p\<close> is
  \<^verbatim>\<open>http.ServeFile(w, r, p)\<close>. \<open>Streamed ct bs\<close> is a response whose header was never
  written explicitly, so its status is 200, with \<^verbatim>\<open>Content-Type\<close> \<open>ct\<close> and the bytes
  \<open>bs\<close> written to \<^verbatim>\<open>w\<close>. \<open>Panic\<close> is a run-time panic of the handler: the server
  recovers it and closes the connection without a response.\<close>

datatype reply = HttpError nat string | ServeFile string | Streamed string string

datatype outcome = Panic | Reply reply

fun reply_status :: "reply \<Rightarrow> nat option" where
  "reply_status (HttpError code msg) = Some code"
| "reply_status (ServeFile p) = None"
| "reply_status (Streamed ct bs) = Some 200"

fun reply_body :: "reply \<Rightarrow> string option" where
  "reply_body (HttpError code msg) = Some (msg @ [CHR 0x0A])"
| "reply_body (ServeFile p) = None"
| "reply_body (Streamed ct bs) = Some bs"

fun outcome_status :: "outcome \<Rightarrow> nat option" where
  "outcome_status Panic = None"
| "outcome_status (Reply r) = reply_status r"

fun outcome_body :: "outcome \<Rightarrow> string option" where
  "outcome_body Panic = None"
| "outcome_body (Reply r) = reply_body r"

definition logf :: "world \<Rightarrow> string \<Rightarrow> world" where
  "logf w tag = w\<lparr>logs := logs w @ [tag]\<rparr>"

definition sent :: "world \<Rightarrow> string \<Rightarrow> string \<Rightarrow> world" where
  "sent w method url = w\<lparr>upstream := upstream w @ [(method, url)]\<rparr>"

subsection \<open>File system calls\<close>

text \<open>The directories \<^verbatim>\<open>os.MkdirAll\<close> goes through for a path, outermost first.\<close>

fun path_prefixes :: "string \<Rightarrow> string list \<Rightarrow> string list" where
  "path_prefixes cur [] = []"
| "path_prefixes cur (c # cs) =
     (let nxt = (if cur = [] then c else if cur = ''/'' then cur @ c else cur @ ''/'' @ c)
      in nxt # path_prefixes nxt cs)"

definition dir_chain :: "string \<Rightarrow> string list" where
  "dir_chain p =
     path_prefixes (if p \<noteq> [] \<and> hd p = CHR ''/'' then ''/'' else [])
       (filter (\<lambda>c. c \<noteq> []) (split_slash p))"

fun mkdir_chain :: "nat option \<Rightarrow> filesystem \<Rightarrow> string list \<Rightarrow> os_error option \<times> filesystem" where
  "mkdir_chain f t [] = (None, t)"
| "mkdir_chain f t (d # ds) =
     (case t d of
        Some Directory \<Rightarrow> mkdir_chain f t ds
      | Some (RegularFile bs) \<Rightarrow> (Some ErrNotDir, t)
      | None \<Rightarrow>
          if f = Some 0 then (Some ErrPermission, t)
          else mkdir_chain (map_option (\<lambda>n. n - 1) f) (t(d \<mapsto> Directory)) ds)"

definition MkdirAll :: "env \<Rightarrow> filesystem \<Rightarrow> string \<Rightarrow> os_error option \<times> filesystem" where
  "MkdirAll e t p = mkdir_chain (mkdir_fault e) t (dir_chain p)"

text \<open>\<^verbatim>\<open>os.Stat\<close>, of which the handler keeps the error only.\<close>

definition Stat :: "env \<Rightarrow> filesystem \<Rightarrow> string \<Rightarrow> os_error option" where
  "Stat e t p =
     (if p = [] then Some ErrNotExist
      else case stat_fault e of
             Some err \<Rightarrow> Some err
           | None \<Rightarrow> (case t p of None \<Rightarrow> Some ErrNotExist | Some n \<Rightarrow> None))"

definition IsNotExist :: "os_error option \<Rightarrow> bool" where
  "IsNotExist err = (err = Some ErrNotExist)"

text \<open>\<^verbatim>\<open>os.Create\<close>: the file is created, or truncated when it exists, at the path
  itself. The parent directory is the one \<^verbatim>\<open>prepareCacheDir\<close> made.\<close>

definition Create :: "env \<Rightarrow> filesystem \<Rightarrow> string \<Rightarrow> os_error option \<times> filesystem" where
  "Create e t p =
     (if p = [] then (Some ErrNotExist, t)
      else if create_fault e then (Some ErrPermission, t)
      else case t p of
             Some Directory \<Rightarrow> (Some ErrIsDir, t)
           | _ \<Rightarrow> (None, t(p \<mapsto> RegularFile [])))"

subsection \<open>The stream copy\<close>

record sink =
  written :: string
  room :: "nat option"

datatype copy_error = ErrRead | ErrWrite | ErrShortWrite

text \<open>\<^verbatim>\<open>Write\<close> on a sink: the new sink, the number of bytes written and the error.\<close>

definition sink_Write :: "sink \<Rightarrow> string \<Rightarrow> sink \<times> nat \<times> copy_error option" where
  "sink_Write s p =
     (case room s of
        None \<Rightarrow> (s\<lparr>written := written s @ p\<rparr>, length p, None)
      | Some r \<Rightarrow>
          if length p \<le> r
          then (s\<lparr>written := written s @ p, room := Some (r - length p)\<rparr>, length p, None)
          else (s\<lparr>written := written s @ take r p, room := Some 0\<rparr>, r, Some ErrWrite))"

text \<open>\<^verbatim>\<open>io.MultiWriter(w, file).Write\<close>: the client first, then the file; the first
  error or short write ends the call.\<close>

definition MultiWriter_Write :: "sink \<times> sink \<Rightarrow> string \<Rightarrow> (sink \<times> sink) \<times> copy_error option" where
  "MultiWriter_Write ws p =
     (case sink_Write (fst ws) p of (c', n, err) \<Rightarrow>
        if err \<noteq> None then ((c', snd ws), err)
        else if n \<noteq> length p then ((c', snd ws), Some ErrShortWrite)
        else (case sink_Write (snd ws) p of (f', m, err') \<Rightarrow>
          if err' \<noteq> None then ((c', f'), err')
          else if m \<noteq> length p then ((c', f'), Some ErrShortWrite)
          else ((c', f'), None)))"

text \<open>The loop of \<^verbatim>\<open>io.Copy\<close>: each read that returns bytes is written to the
  destination; a write error ends the loop at once, a read error after the bytes read
  with it are written.\<close>

fun io_Copy :: "sink \<times> sink \<Rightarrow> string list \<Rightarrow> bool \<Rightarrow> (sink \<times> sink) \<times> copy_error option" where
  "io_Copy ws [] rd_err = (ws, if rd_err then Some ErrRead else None)"
| "io_Copy ws (c # cs) rd_err =
     (if c = [] then io_Copy ws cs rd_err
      else case MultiWriter_Write ws c of
             (ws', Some err) \<Rightarrow> (ws', Some err)
           | (ws', None) \<Rightarrow> io_Copy ws' cs rd_err)"

subsection \<open>Queries on the two tables\<close>

text \<open>\<^verbatim>\<open>getRepoMap\<close>: the base URL of the first row of \<^verbatim>\<open>repomap\<close> with the name, an error
  when there is none or the query fails.\<close>

definition getRepoMap :: "env \<Rightarrow> (string \<times> string) list \<Rightarrow> string \<Rightarrow> db_error + string" where
  "getRepoMap e t repo =
     (if repomap_fault e then Inl ErrDB
      else case map_of t repo of None \<Rightarrow> Inl ErrNoRows | Some baseURL \<Rightarrow> Inr baseURL)"

definition has_key :: "string \<Rightarrow> string \<Rightarrow> cacheitem_row \<Rightarrow> bool" where
  "has_key repo itemPath r = (reponame r = repo \<and> pathname r = itemPath)"

text \<open>The \<^verbatim>\<open>QueryRow(...).Scan(...)\<close> of \<^verbatim>\<open>itemInCache\<close>: the first row with the key.\<close>

definition select_item :: "env \<Rightarrow> cacheitem_row list \<Rightarrow> string \<Rightarrow> string \<Rightarrow> db_error + cacheitem_row" where
  "select_item e t repo itemPath =
     (if lookup_fault e then Inl ErrDB
      else case find (has_key repo itemPath) t of None \<Rightarrow> Inl ErrNoRows | Some r \<Rightarrow> Inr r)"

text \<open>\<^verbatim>\<open>itemInCache\<close> returns a pair of a boolean and an error; the error is \<^verbatim>\<open>nil\<close> on
  every path.\<close>

definition itemInCache ::
  "env \<Rightarrow> cacheitem_row list \<Rightarrow> string \<Rightarrow> string \<Rightarrow> string \<Rightarrow> int \<Rightarrow> string \<Rightarrow> bool \<times> db_error option" where
  "itemInCache e t repo itemPath lastMod fileSize etg =
     (case select_item e t repo itemPath of
        Inl err \<Rightarrow> (False, None)
      | Inr r \<Rightarrow>
          if lastmodified r = lastMod \<and> filesize r = fileSize \<and> etag r = etg
          then (True, None)
          else (False, None))"

text \<open>\<^verbatim>\<open>updateCache\<close> is two database operations: the \<^verbatim>\<open>SELECT COUNT(*)\<close>, sent on the
  pool before the transaction begins, and the transaction, which holds one \<^verbatim>\<open>INSERT\<close> or
  one \<^verbatim>\<open>UPDATE\<close>, chosen by the count read earlier. The error of \<^verbatim>\<open>tx.Exec\<close> is
  overwritten by that of \<^verbatim>\<open>tx.Commit\<close>; committing after a failed statement rolls
  back and reports an error, so either fault leaves the table as it was.\<close>

definition select_count :: "env \<Rightarrow> cacheitem_row list \<Rightarrow> string \<Rightarrow> string \<Rightarrow> db_error + nat" where
  "select_count e t repo itemPath =
     (if count_fault e then Inl ErrDB else Inr (length (filter (has_key repo itemPath) t)))"

definition insert_row ::
  "nat \<Rightarrow> string \<Rightarrow> string \<Rightarrow> string \<Rightarrow> int \<Rightarrow> string \<Rightarrow> cacheitem_row list \<Rightarrow> cacheitem_row list" where
  "insert_row now repo itemPath lastMod fileSize etg t =
     t @ [\<lparr>reponame = repo, pathname = itemPath, lastmodified = lastMod,
           filesize = fileSize, etag = etg, updatedate = now\<rparr>]"

definition update_rows ::
  "nat \<Rightarrow> string \<Rightarrow> string \<Rightarrow> string \<Rightarrow> int \<Rightarrow> string \<Rightarrow> cacheitem_row list \<Rightarrow> cacheitem_row list" where
  "update_rows now repo itemPath lastMod fileSize etg t =
     map (\<lambda>r. if has_key repo itemPath r
              then r\<lparr>lastmodified := lastMod, filesize := fileSize, etag := etg, updatedate := now\<rparr>
              else r) t"

definition write_tx ::
  "env \<Rightarrow> world \<Rightarrow> nat \<Rightarrow> string \<Rightarrow> string \<Rightarrow> string \<Rightarrow> int \<Rightarrow> string \<Rightarrow> db_error option \<times> world" where
  "write_tx e w count repo itemPath lastMod fileSize etg =
     (if begin_fault e then (Some ErrDB, logf w ''ERR_TXSTART'')
      else let t' = (if count = 0
                     then insert_row (clock e) repo itemPath lastMod fileSize etg (cacheitem w)
                     else update_rows (clock e) repo itemPath lastMod fileSize etg (cacheitem w))
           in if exec_fault e \<or> commit_fault e then (Some ErrDB, w)
              else (None, w\<lparr>cacheitem := t'\<rparr>))"

definition updateCache ::
  "env \<Rightarrow> world \<Rightarrow> string \<Rightarrow> string \<Rightarrow> string \<Rightarrow> int \<Rightarrow> string \<Rightarrow> db_error option \<times> world" where
  "updateCache e w repo itemPath lastMod fileSize etg =
     (case select_count e (cacheitem w) repo itemPath of
        Inl err \<Rightarrow> (Some err, w)
      | Inr count \<Rightarrow> write_tx e w count repo itemPath lastMod fileSize etg)"

text \<open>Requests are served concurrently, each handler in a goroutine of its own, and the
  two operations of \<^verbatim>\<open>updateCache\<close> are separate round trips to the database: another
  call's operations may run between them. A call in progress is a task; \<open>upd_step\<close> runs
  the next operation of task \<open>i\<close>, and \<open>upd_run\<close> a schedule, the list of the tasks to
  step, in order.\<close>

datatype upd_pc = AtCount | AtWrite nat | Returned "db_error option"

record upd_task =
  t_repo :: string
  t_path :: string
  t_lastMod :: string
  t_fileSize :: int
  t_etag :: string
  t_pc :: upd_pc

definition new_task :: "string \<Rightarrow> string \<Rightarrow> string \<Rightarrow> int \<Rightarrow> string \<Rightarrow> upd_task" where
  "new_task repo itemPath lastMod fileSize etg =
     \<lparr>t_repo = repo, t_path = itemPath, t_lastMod = lastMod, t_fileSize = fileSize,
      t_etag = etg, t_pc = AtCount\<rparr>"

definition task_step :: "env \<Rightarrow> world \<Rightarrow> upd_task \<Rightarrow> world \<times> upd_task" where
  "task_step e w k =
     (case t_pc k of
        AtCount \<Rightarrow>
          (case select_count e (cacheitem w) (t_repo k) (t_path k) of
             Inl err \<Rightarrow> (w, k\<lparr>t_pc := Returned (Some err)\<rparr>)
           | Inr count \<Rightarrow> (w, k\<lparr>t_pc := AtWrite count\<rparr>))
      | AtWrite count \<Rightarrow>
          (case write_tx e w count (t_repo k) (t_path k) (t_lastMod k) (t_fileSize k) (t_etag k) of
             (err, w') \<Rightarrow> (w', k\<lparr>t_pc := Returned err\<rparr>))
      | Returned err \<Rightarrow> (w, k))"

definition upd_step :: "env \<Rightarrow> world \<times> upd_task list \<Rightarrow> nat \<Rightarrow> world \<times> upd_task list" where
  "upd_step e c i =
     (if i < length (snd c)
      then (case task_step e (fst c) (snd c ! i) of (w', k') \<Rightarrow> (w', (snd c)[i := k']))
      else c)"

definition upd_run :: "env \<Rightarrow> nat list \<Rightarrow> world \<times> upd_task list \<Rightarrow> world \<times> upd_task list" where
  "upd_run e sched c = foldl (upd_step e) c sched"

text \<open>The upsert the specification asks for, in its words: insert if absent for the key,
  else overwrite in place, as one step.\<close>

definition upsert_spec ::
  "nat \<Rightarrow> string \<Rightarrow> string \<Rightarrow> string \<Rightarrow> int \<Rightarrow> string \<Rightarrow> cacheitem_row list \<Rightarrow> cacheitem_row list" where
  "upsert_spec now repo itemPath lastMod fileSize etg t =
     (if \<exists>r \<in> set t. has_key repo itemPath r
      then update_rows now repo itemPath lastMod fileSize etg t
      else insert_row now repo itemPath lastMod fileSize etg t)"

text \<open>At most one row for each key.\<close>

definition row_key :: "cacheitem_row \<Rightarrow> string \<times> string" where
  "row_key r = (reponame r, pathname r)"

definition one_row_per_key :: "cacheitem_row list \<Rightarrow> bool" where
  "one_row_per_key t = distinct (map row_key t)"

subsection \<open>The handler\<close>

text \<open>\<^verbatim>\<open>prepareCacheDir\<close>: makes the directory of the blob and returns the blob's path.\<close>

definition prepareCacheDir ::
  "env \<Rightarrow> filesystem \<Rightarrow> string \<Rightarrow> string \<Rightarrow> (os_error + string) \<times> filesystem" where
  "prepareCacheDir e t repo itemPath =
     (let dirName = Dir itemPath;
          cacheDirFullPath = Join [cacheDir e, repo, dirName]
      in case MkdirAll e t cacheDirFullPath of
           (Some err, t') \<Rightarrow> (Inl err, t')
         | (None, t') \<Rightarrow> (Inr (Join [cacheDir e, repo, itemPath]), t'))"

text \<open>The copy of the handler, \<^verbatim>\<open>io.Copy(io.MultiWriter(w, file), respGet.Body)\<close>: the
  client connection and the file just created are the two sinks, both empty.\<close>

definition stream_copy :: "env \<Rightarrow> get_response \<Rightarrow> (sink \<times> sink) \<times> copy_error option" where
  "stream_copy e respGet =
     io_Copy (\<lparr>written = [], room = client_room e\<rparr>, \<lparr>written = [], room = file_room e\<rparr>)
       (Body respGet) (BodyErr respGet)"

text \<open>The MISS path, from \<^verbatim>\<open>INFO_CACHE_MISS\<close> to the end of \<^verbatim>\<open>mainHandler\<close>. The file
  is the one at \<open>cachePath\<close>: what the copy writes to the file sink is in the file when
  the handler returns, whether the copy failed or not.\<close>

definition fetch_and_store ::
  "env \<Rightarrow> world \<Rightarrow> string \<Rightarrow> string \<Rightarrow> string \<Rightarrow> string \<Rightarrow> string \<Rightarrow> int \<Rightarrow> outcome \<times> world" where
  "fetch_and_store e w repoName rest targetUrl cachePath mimeType contentLength =
     (let w1 = sent (logf w ''INFO_CACHE_MISS'') ''GET'' targetUrl
      in case Get e targetUrl of
           Inl err \<Rightarrow> (Reply (HttpError 500 ''FETCH ERROR''), logf w1 ''ERR_GET'')
         | Inr respGet \<Rightarrow>
             if 400 \<le> StatusCode respGet
             then (Reply (HttpError (StatusCode respGet) (''UPSTREAM ERROR '' @ Status respGet)), w1)
             else (case Create e (fs w1) cachePath of
                (Some err, t) \<Rightarrow>
                  (Reply (HttpError 500 ''CACHE CREATE ERROR''), logf w1 ''ERR_CREATECACHEPATH'')
              | (None, t) \<Rightarrow>
                  let w2 = logf (logf (w1\<lparr>fs := t\<rparr>) ''DBG_HEAD'') ''DBG_RESP'';
                      respContentLastMod = Last_Modified (Header respGet);
                      respContentEtag = Etag (Header respGet);
                      respContentLengthRaw = Content_Length (Header respGet);
                      respContentLength = ParseInt respContentLengthRaw;
                      copied = stream_copy e respGet;
                      w3 = w2\<lparr>fs := (fs w2)(cachePath \<mapsto> RegularFile (written (snd (fst copied))))\<rparr>;
                      response = Reply (Streamed mimeType (written (fst (fst copied))))
                  in if snd copied \<noteq> None then (response, logf w3 ''ERR_STREAM'')
                     else let respContentLength' =
                                (if respContentLengthRaw = [] then contentLength else respContentLength);
                              respContentEtag' = TrimPrefix respContentEtag ''W/'';
                              w4 = logf w3 ''DBG_CACHEPAYLOAD''
                          in case updateCache e w4 repoName rest respContentLastMod
                                    respContentLength' respContentEtag' of
                               (Some err, w5) \<Rightarrow> (response, logf w5 ''ERR_UPDATECACHE'')
                             | (None, w5) \<Rightarrow> (response, w5)))"

text \<open>Two steps of \<^verbatim>\<open>mainHandler\<close> with a name of their own: the content type kept from
  the probe, and the call of \<^verbatim>\<open>prepareCacheDir\<close>, whose error is logged and leaves
  \<^verbatim>\<open>cachePath\<close> empty.\<close>

definition mimeType_of :: "headers \<Rightarrow> string" where
  "mimeType_of respHead =
     (if Content_Type respHead = [] then ''application/octet-stream''
      else Content_Type respHead)"

definition cache_dir_prepared :: "env \<Rightarrow> world \<Rightarrow> string \<Rightarrow> string \<Rightarrow> string \<times> world" where
  "cache_dir_prepared e w repoName rest =
     (case prepareCacheDir e (fs w) repoName rest of
        (Inl err, t) \<Rightarrow> ([], logf (w\<lparr>fs := t\<rparr>) ''ERR_PREPARECACHEPATH'')
      | (Inr cachePath, t) \<Rightarrow> (cachePath, w\<lparr>fs := t\<rparr>))"

text \<open>\<^verbatim>\<open>mainHandler\<close>. \<open>urlPath\<close> is \<^verbatim>\<open>r.URL.Path\<close>. Indexing \<^verbatim>\<open>path[1]\<close> panics when
  \<^verbatim>\<open>path\<close> has one element. \<^verbatim>\<open>getClientIP\<close> feeds a log line only and is left out.\<close>

definition mainHandler :: "env \<Rightarrow> string \<Rightarrow> world \<Rightarrow> outcome \<times> world" where
  "mainHandler e urlPath w =
     (let repoUrl = TrimPrefix urlPath ''/r/'';
          path = SplitN2 repoUrl CHR ''/''
      in if length path < 2 then (Panic, w)
         else
          let repoName = path ! 0;
              rest = path ! 1
          in case getRepoMap e (repomap w) repoName of
               Inl err \<Rightarrow> (Reply (HttpError 404 ''NOT FOUND''), logf w ''ERR_GETREPOMAP'')
             | Inr baseURL \<Rightarrow>
                 let remoteBase = TrimSuffix baseURL ''/'';
                     targetUrl = remoteBase @ ''/'' @ rest;
                     w1 = sent w ''HEAD'' targetUrl
                 in case Head e targetUrl of
                      Inl err \<Rightarrow>
                        (Reply (HttpError 500 ''INTERNAL SERVER ERROR''), logf w1 ''ERR_HEAD'')
                    | Inr respHead \<Rightarrow>
                        let lastMod = Last_Modified respHead;
                            contentLength = ParseInt (Content_Length respHead);
                            etg = Etag respHead;
                            mimeType = mimeType_of respHead
                        in case cache_dir_prepared e w1 repoName rest of
                             (cachePath, w2) \<Rightarrow>
                               let inCache = fst (itemInCache e (cacheitem w2) repoName rest
                                                    lastMod contentLength etg)
                               in if \<not> IsNotExist (Stat e (fs w2) cachePath) \<and> inCache
                                  then (Reply (ServeFile cachePath), w2)
                                  else fetch_and_store e w2 repoName rest targetUrl cachePath
                                         mimeType contentLength)"

subsection \<open>A repository, an upstream and a request to run the handler on\<close>

text \<open>Repository \<^verbatim>\<open>pkgs\<close> is mapped to \<^verbatim>\<open>https://example.org/repo/\<close>; the upstream
  answers every probe with \<^verbatim>\<open>Last-Modified: Mon\<close>, \<^verbatim>\<open>Content-Length: 6\<close>,
  \<^verbatim>\<open>Etag: abc\<close>, and every fetch with status 200 and the body \<^verbatim>\<open>abcdef\<close>, read in two
  parts; no call fails.\<close>

definition ex_probe :: headers where
  "ex_probe = \<lparr>Last_Modified = ''Mon'', Content_Length = ''6'', Etag = ''abc'', Content_Type = []\<rparr>"

definition ex_response :: get_response where
  "ex_response = \<lparr>StatusCode = 200, Status = ''200 OK'', Header = ex_probe,
                   Body = [''abc'', ''def''], BodyErr = False\<rparr>"

definition ex_env :: env where
  "ex_env = \<lparr>cacheDir = ''/cache'', clock = 7, repomap_fault = False,
              Head = (\<lambda>url. Inr ex_probe), Get = (\<lambda>url. Inr ex_response),
              mkdir_fault = None, lookup_fault = False, stat_fault = None,
              create_fault = False, client_room = None, file_room = None,
              count_fault = False, begin_fault = False, exec_fault = False,
              commit_fault = False\<rparr>"

definition ex_world :: world where
  "ex_world = \<lparr>repomap = [(''pkgs'', ''https://example.org/repo/'')], cacheitem = [],
                fs = Map.empty, logs = [], upstream = []\<rparr>"

definition ex_row :: cacheitem_row where
  "ex_row = \<lparr>reponame = ''pkgs'', pathname = ''a/b.tar'', lastmodified = ''Mon'',
              filesize = 6, etag = ''abc'', updatedate = 7\<rparr>"

text \<open>The same upstream with a weak validator, \<^verbatim>\<open>W/"abc"\<close>, in both answers.\<close>

definition weak_tag :: string where
  "weak_tag = ''W/'' @ [CHR 0x22] @ ''abc'' @ [CHR 0x22]"

definition ex_env_weak :: env where
  "ex_env_weak =
     ex_env\<lparr>Head := (\<lambda>url. Inr (ex_probe\<lparr>Etag := weak_tag\<rparr>)),
            Get := (\<lambda>url. Inr (ex_response\<lparr>Header := ex_probe\<lparr>Etag := weak_tag\<rparr>\<rparr>))\<rparr>"

text \<open>The world after the first request for \<^verbatim>\<open>/r/pkgs/a/b.tar\<close>: the blob is in the
  cache directory and its descriptor in the table.\<close>

definition ex_cached :: world where
  "ex_cached = snd (mainHandler ex_env ''/r/pkgs/a/b.tar'' ex_world)"

text \<open>An upstream that refuses the fetch.\<close>

definition ex_env_503 :: env where
  "ex_env_503 =
     ex_env\<lparr>Get := (\<lambda>url. Inr (ex_response\<lparr>StatusCode := 503,
                                                Status := ''503 Service Unavailable''\<rparr>))\<rparr>"


text \<open>The world in which the MISS path runs for the first request: the probe is sent and
  the directory of the blob is made.\<close>

definition ex_probed :: world where
  "ex_probed =
     snd (cache_dir_prepared ex_env
            (sent ex_world ''HEAD'' ''https://example.org/repo/a/b.tar'') ''pkgs'' ''a/b.tar'')"

section \<open>Properties\<close>

subsection \<open>Auxiliary facts\<close>

lemma sent_fields [simp]:
  "cacheitem (sent w m u) = cacheitem w" "fs (sent w m u) = fs w"
  "repomap (sent w m u) = repomap w" "logs (sent w m u) = logs w"
  "upstream (sent w m u) = upstream w @ [(m, u)]"
  by (simp_all add: sent_def)

lemma logf_fields [simp]:
  "cacheitem (logf w tag) = cacheitem w" "fs (logf w tag) = fs w"
  "repomap (logf w tag) = repomap w" "logs (logf w tag) = logs w @ [tag]"
  "upstream (logf w tag) = upstream w"
  by (simp_all add: logf_def)

lemma mkdir_chain_files:
  "(snd (mkdir_chain f t ds) p = Some (RegularFile bs)) = (t p = Some (RegularFile bs))"
  by (induction ds arbitrary: f t) (auto split: option.splits node.splits)

lemma cache_dir_prepared_fs:
  "fs (snd (cache_dir_prepared e w repoName rest)) =
     snd (mkdir_chain (mkdir_fault e) (fs w) (dir_chain (Join [cacheDir e, repoName, Dir rest])))"
  by (simp add: cache_dir_prepared_def prepareCacheDir_def MkdirAll_def logf_def Let_def
           split: prod.splits option.splits sum.splits)

lemma cache_dir_prepared_files:
  "(fs (snd (cache_dir_prepared e w repoName rest)) p = Some (RegularFile bs)) =
   (fs w p = Some (RegularFile bs))"
  by (simp only: cache_dir_prepared_fs mkdir_chain_files)

lemma cache_dir_prepared_same:
  "cacheitem (snd (cache_dir_prepared e w repoName rest)) = cacheitem w"
  "upstream (snd (cache_dir_prepared e w repoName rest)) = upstream w"
  "repomap (snd (cache_dir_prepared e w repoName rest)) = repomap w"
  by (auto simp: cache_dir_prepared_def logf_def split: prod.splits sum.splits)

lemma mainHandler_probed:
  assumes "SplitN2 (TrimPrefix urlPath ''/r/'') CHR ''/'' = [repoName, rest]"
      and "getRepoMap e (repomap w) repoName = Inr baseURL"
      and "Head e (TrimSuffix baseURL ''/'' @ ''/'' @ rest) = Inr respHead"
  shows "mainHandler e urlPath w =
     (let targetUrl = TrimSuffix baseURL ''/'' @ ''/'' @ rest;
          p = cache_dir_prepared e (sent w ''HEAD'' targetUrl) repoName rest
      in if \<not> IsNotExist (Stat e (fs (snd p)) (fst p)) \<and>
            fst (itemInCache e (cacheitem w) repoName rest (Last_Modified respHead)
                   (ParseInt (Content_Length respHead)) (Etag respHead))
         then (Reply (ServeFile (fst p)), snd p)
         else fetch_and_store e (snd p) repoName rest targetUrl (fst p)
                (mimeType_of respHead) (ParseInt (Content_Length respHead)))"
  using assms
  by (simp add: mainHandler_def Let_def cache_dir_prepared_same case_prod_beta)

lemma fetch_and_store_sends:
  "upstream (snd (fetch_and_store e w repoName rest targetUrl cachePath mimeType contentLength)) =
     upstream w @ [(''GET'', targetUrl)]"
  by (auto simp: fetch_and_store_def Let_def logf_def sent_def updateCache_def write_tx_def
           split: sum.splits prod.splits option.splits)

lemma fetch_and_store_not_ServeFile:
  "fst (fetch_and_store e w repoName rest targetUrl cachePath mimeType contentLength) \<noteq> Reply (ServeFile p)"
  by (auto simp: fetch_and_store_def Let_def
           split: sum.splits prod.splits option.splits)

lemma fetch_and_store_upstream_error:
  assumes "Get e targetUrl = Inr respGet" and "400 \<le> StatusCode respGet"
  shows "fetch_and_store e w repoName rest targetUrl cachePath mimeType contentLength =
           (Reply (HttpError (StatusCode respGet) (''UPSTREAM ERROR '' @ Status respGet)),
            sent (logf w ''INFO_CACHE_MISS'') ''GET'' targetUrl)"
  using assms by (simp add: fetch_and_store_def Let_def)

lemma mainHandler_cases:
  "(mainHandler e urlPath w = (Panic, w)) \<or>
   (mainHandler e urlPath w = (Reply (HttpError 404 ''NOT FOUND''), logf w ''ERR_GETREPOMAP'')) \<or>
   (\<exists>target. mainHandler e urlPath w =
       (Reply (HttpError 500 ''INTERNAL SERVER ERROR''), logf (sent w ''HEAD'' target) ''ERR_HEAD'')) \<or>
   (\<exists>target repoName rest. mainHandler e urlPath w =
       (Reply (ServeFile (fst (cache_dir_prepared e (sent w ''HEAD'' target) repoName rest))),
        snd (cache_dir_prepared e (sent w ''HEAD'' target) repoName rest))) \<or>
   (\<exists>target repoName rest mimeType contentLength. mainHandler e urlPath w =
       fetch_and_store e (snd (cache_dir_prepared e (sent w ''HEAD'' target) repoName rest))
         repoName rest target (fst (cache_dir_prepared e (sent w ''HEAD'' target) repoName rest))
         mimeType contentLength)"
  unfolding mainHandler_def Let_def case_prod_beta
  by (simp split: sum.split) blast

lemma itemInCache_True_iff:
  "fst (itemInCache e t repo itemPath lastMod fileSize etg) =
     (\<exists>r. select_item e t repo itemPath = Inr r \<and> lastmodified r = lastMod \<and>
          filesize r = fileSize \<and> etag r = etg)"
  by (auto simp: itemInCache_def split: sum.splits)

lemma sink_Write_cases:
  "sink_Write s p = (s', n, err) \<Longrightarrow>
     (err = None \<and> n = length p \<and> written s' = written s @ p) \<or>
     (err = Some ErrWrite \<and> n < length p \<and> written s' = written s @ take n p)"
  by (auto simp: sink_Write_def split: option.splits if_splits)

lemma MultiWriter_Write_cases:
  assumes "MultiWriter_Write (c, f) p = ((c', f'), err)"
  shows "(err = None \<and> written c' = written c @ p \<and> written f' = written f @ p) \<or>
         (err = Some ErrWrite \<and>
            (\<exists>xs ys. written c' = written c @ xs \<and> written f' = written f @ ys \<and>
                     prefix ys xs \<and> prefix xs p \<and> ys \<noteq> p))"
proof -
  obtain c1 n e1 where w1: "sink_Write c p = (c1, n, e1)" by (cases "sink_Write c p") auto
  obtain f1 m e2 where w2: "sink_Write f p = (f1, m, e2)" by (cases "sink_Write f p") auto
  show ?thesis
  proof (cases e1)
    case (Some a)
    with sink_Write_cases [OF w1] have c1: "e1 = Some ErrWrite" "n < length p"
        "written c1 = written c @ take n p" by auto
    from assms w1 c1 have "c' = c1" "f' = f" "err = Some ErrWrite"
      by (auto simp: MultiWriter_Write_def)
    with c1 have "written c' = written c @ take n p \<and> written f' = written f @ [] \<and>
        prefix [] (take n p) \<and> prefix (take n p) p \<and> [] \<noteq> p"
      by (auto simp: take_is_prefix)
    with \<open>err = Some ErrWrite\<close> show ?thesis by blast
  next
    case None
    with sink_Write_cases [OF w1] have c1: "e1 = None" "n = length p" "written c1 = written c @ p"
      by auto
    show ?thesis
    proof (cases e2)
      case None
      with sink_Write_cases [OF w2] have "m = length p" "written f1 = written f @ p" by auto
      with assms w1 w2 c1 None show ?thesis by (auto simp: MultiWriter_Write_def)
    next
      case (Some b)
      with sink_Write_cases [OF w2] have f1: "e2 = Some ErrWrite" "m < length p"
          "written f1 = written f @ take m p" by auto
      from assms w1 w2 c1 f1 have "c' = c1" "f' = f1" "err = Some ErrWrite"
        by (auto simp: MultiWriter_Write_def)
      with c1 f1 have "written c' = written c @ p \<and> written f' = written f @ take m p \<and>
          prefix (take m p) p \<and> prefix p p \<and> take m p \<noteq> p"
        by (auto simp: take_is_prefix)
      with \<open>err = Some ErrWrite\<close> show ?thesis by blast
    qed
  qed
qed

text \<open>What a copy leaves in the two sinks.\<close>

lemma io_Copy_written:
  "io_Copy (c, f) chunks rd_err = ((c', f'), err) \<Longrightarrow>
     \<exists>xs ys. written c' = written c @ xs \<and> written f' = written f @ ys \<and>
             prefix ys xs \<and> prefix xs (concat chunks) \<and>
             (err = None \<or> err = Some ErrRead \<or> err = Some ErrWrite) \<and>
             (err \<noteq> Some ErrWrite \<longrightarrow> xs = concat chunks \<and> ys = concat chunks) \<and>
             (err = None \<longleftrightarrow> \<not> rd_err \<and> ys = concat chunks \<and> err \<noteq> Some ErrWrite)"
proof (induction chunks arbitrary: c f)
  case Nil
  then show ?case by (auto split: if_splits)
next
  case (Cons p ps)
  show ?case
  proof (cases "p = []")
    case True
    with Cons.prems have "io_Copy (c, f) ps rd_err = ((c', f'), err)" by simp
    from Cons.IH [OF this] True show ?thesis by simp
  next
    case False
    obtain c1 f1 e1 where mw: "MultiWriter_Write (c, f) p = ((c1, f1), e1)"
      by (cases "MultiWriter_Write (c, f) p") auto
    from MultiWriter_Write_cases [OF mw] show ?thesis
    proof
      assume ok: "e1 = None \<and> written c1 = written c @ p \<and> written f1 = written f @ p"
      with Cons.prems mw False have "io_Copy (c1, f1) ps rd_err = ((c', f'), err)" by simp
      from Cons.IH [OF this] obtain xs ys where
        r: "written c' = written c1 @ xs" "written f' = written f1 @ ys"
           "prefix ys xs" "prefix xs (concat ps)"
           "err = None \<or> err = Some ErrRead \<or> err = Some ErrWrite"
           "err \<noteq> Some ErrWrite \<longrightarrow> xs = concat ps \<and> ys = concat ps"
           "err = None \<longleftrightarrow> \<not> rd_err \<and> ys = concat ps \<and> err \<noteq> Some ErrWrite"
        by blast
      with ok have "written c' = written c @ (p @ xs) \<and> written f' = written f @ (p @ ys) \<and>
             prefix (p @ ys) (p @ xs) \<and> prefix (p @ xs) (concat (p # ps)) \<and>
             (err = None \<or> err = Some ErrRead \<or> err = Some ErrWrite) \<and>
             (err \<noteq> Some ErrWrite \<longrightarrow> p @ xs = concat (p # ps) \<and> p @ ys = concat (p # ps)) \<and>
             (err = None \<longleftrightarrow> \<not> rd_err \<and> p @ ys = concat (p # ps) \<and> err \<noteq> Some ErrWrite)"
        by auto
      then show ?thesis by blast
    next
      assume "e1 = Some ErrWrite \<and>
            (\<exists>xs ys. written c1 = written c @ xs \<and> written f1 = written f @ ys \<and>
                     prefix ys xs \<and> prefix xs p \<and> ys \<noteq> p)"
      then obtain xs ys where
        r: "e1 = Some ErrWrite" "written c1 = written c @ xs" "written f1 = written f @ ys"
           "prefix ys xs" "prefix xs p" "ys \<noteq> p"
        by blast
      with Cons.prems mw False have "c' = c1" "f' = f1" "err = Some ErrWrite" by auto
      with r have "written c' = written c @ xs \<and> written f' = written f @ ys \<and>
             prefix ys xs \<and> prefix xs (concat (p # ps)) \<and>
             (err = None \<or> err = Some ErrRead \<or> err = Some ErrWrite) \<and>
             (err \<noteq> Some ErrWrite \<longrightarrow> xs = concat (p # ps) \<and> ys = concat (p # ps)) \<and>
             (err = None \<longleftrightarrow> \<not> rd_err \<and> ys = concat (p # ps) \<and> err \<noteq> Some ErrWrite)"
        by (auto simp: prefix_def)
      then show ?thesis by blast
    qed
  qed
qed

lemma updateCache_same:
  "fs (snd (updateCache e w repo itemPath lastMod fileSize etg)) = fs w"
  "upstream (snd (updateCache e w repo itemPath lastMod fileSize etg)) = upstream w"
  "repomap (snd (updateCache e w repo itemPath lastMod fileSize etg)) = repomap w"
  by (auto simp: updateCache_def write_tx_def Let_def split: sum.splits)

lemma stream_copy_written:
  assumes "stream_copy e respGet = ((c', f'), err)"
  shows "prefix (written f') (written c') \<and> prefix (written c') (concat (Body respGet)) \<and>
         (err = None \<or> err = Some ErrRead \<or> err = Some ErrWrite) \<and>
         (err \<noteq> Some ErrWrite \<longrightarrow>
            written c' = concat (Body respGet) \<and> written f' = concat (Body respGet)) \<and>
         (err = None \<longleftrightarrow>
            \<not> BodyErr respGet \<and> written f' = concat (Body respGet) \<and> err \<noteq> Some ErrWrite)"
  using io_Copy_written [OF assms [unfolded stream_copy_def]] by auto

lemma fetch_and_store_streamed:
  assumes fetch: "Get e targetUrl = Inr respGet"
      and ok: "StatusCode respGet < 400"
      and created: "fst (Create e (fs w) cachePath) = None"
  shows "fst (fetch_and_store e w repoName rest targetUrl cachePath mimeType contentLength) =
           Reply (Streamed mimeType (written (fst (fst (stream_copy e respGet)))))"
    and "fs (snd (fetch_and_store e w repoName rest targetUrl cachePath mimeType contentLength))
           cachePath = Some (RegularFile (written (snd (fst (stream_copy e respGet)))))"
    and "snd (stream_copy e respGet) \<noteq> None \<Longrightarrow>
         cacheitem (snd (fetch_and_store e w repoName rest targetUrl cachePath mimeType
                           contentLength)) = cacheitem w"
    and "snd (stream_copy e respGet) \<noteq> None \<Longrightarrow>
         logs (snd (fetch_and_store e w repoName rest targetUrl cachePath mimeType
                      contentLength)) =
           logs w @ [''INFO_CACHE_MISS'', ''DBG_HEAD'', ''DBG_RESP'', ''ERR_STREAM'']"
  using fetch ok created
  by (auto simp: fetch_and_store_def Let_def updateCache_same case_prod_beta split: option.splits)

lemma MultiWriter_client_failure:
  "sink_Write (fst ws) p = (c', n, Some err) \<Longrightarrow>
     MultiWriter_Write ws p = ((c', snd ws), Some err)"
  by (simp add: MultiWriter_Write_def)

lemma MultiWriter_file_failure:
  "sink_Write (fst ws) p = (c', length p, None) \<Longrightarrow> sink_Write (snd ws) p = (f', m, Some err) \<Longrightarrow>
     MultiWriter_Write ws p = ((c', f'), Some err)"
  by (simp add: MultiWriter_Write_def)

lemma has_key_row_key: "has_key repo itemPath r = (row_key r = (repo, itemPath))"
  by (auto simp: has_key_def row_key_def)

lemma row_key_update_rows:
  "map row_key (update_rows now repo itemPath lastMod fileSize etg t) = map row_key t"
  by (simp add: update_rows_def row_key_def)

lemma length_update_rows:
  "length (update_rows now repo itemPath lastMod fileSize etg t) = length t"
  by (simp add: update_rows_def)

lemma filter_key_distinct:
  "distinct (map row_key t) \<Longrightarrow> r \<in> set t \<Longrightarrow> filter (\<lambda>x. row_key x = row_key r) t = [r]"
proof (induction t)
  case Nil
  then show ?case by simp
next
  case (Cons a t)
  show ?case
  proof (cases "a = r")
    case True
    from Cons.prems have "row_key a \<notin> row_key ` set t" by simp
    then have "\<forall>x \<in> set t. row_key x \<noteq> row_key a" by (metis imageI)
    then have "filter (\<lambda>x. row_key x = row_key a) t = []" by (simp add: filter_empty_conv)
    with True show ?thesis by simp
  next
    case False
    with Cons.prems have "r \<in> set t" by simp
    with Cons.prems have "row_key a \<noteq> row_key r" by force
    with Cons \<open>r \<in> set t\<close> show ?thesis by simp
  qed
qed

lemma update_rows_other:
  "filter (\<lambda>r. \<not> has_key repo itemPath r) (update_rows now repo itemPath lastMod fileSize etg t) =
   filter (\<lambda>r. \<not> has_key repo itemPath r) t"
  by (induction t) (auto simp: update_rows_def has_key_def)

lemma update_rows_key:
  "filter (has_key repo itemPath) (update_rows now repo itemPath lastMod fileSize etg t) =
   map (\<lambda>r. \<lparr>reponame = repo, pathname = itemPath, lastmodified = lastMod,
              filesize = fileSize, etag = etg, updatedate = now\<rparr>)
     (filter (has_key repo itemPath) t)"
  by (induction t) (auto simp: update_rows_def has_key_def)

lemma update_rows_one:
  assumes "distinct (map row_key t)" and "r \<in> set t" and "has_key repo itemPath r"
  shows "filter (has_key repo itemPath) (update_rows now repo itemPath lastMod fileSize etg t) =
     [\<lparr>reponame = repo, pathname = itemPath, lastmodified = lastMod,
       filesize = fileSize, etag = etg, updatedate = now\<rparr>]"
proof -
  from assms(3) have "has_key repo itemPath = (\<lambda>x. row_key x = row_key r)"
    by (auto simp: has_key_row_key)
  with filter_key_distinct [OF assms(1,2)] have "filter (has_key repo itemPath) t = [r]"
    by simp
  then show ?thesis by (simp add: update_rows_key)
qed

lemma insert_row_facts:
  assumes "\<forall>r \<in> set t. \<not> has_key repo itemPath r"
  shows "filter (has_key repo itemPath) (insert_row now repo itemPath lastMod fileSize etg t) =
     [\<lparr>reponame = repo, pathname = itemPath, lastmodified = lastMod,
       filesize = fileSize, etag = etg, updatedate = now\<rparr>]"
    and "filter (\<lambda>r. \<not> has_key repo itemPath r) (insert_row now repo itemPath lastMod fileSize etg t) =
         filter (\<lambda>r. \<not> has_key repo itemPath r) t"
    and "distinct (map row_key t) \<Longrightarrow>
         distinct (map row_key (insert_row now repo itemPath lastMod fileSize etg t))"
  using assms
  by (auto simp: insert_row_def has_key_def row_key_def filter_empty_conv)

lemma updateCache_ok:
  assumes "fst (updateCache e w repo itemPath lastMod fileSize etg) = None"
  shows "cacheitem (snd (updateCache e w repo itemPath lastMod fileSize etg)) =
           upsert_spec (clock e) repo itemPath lastMod fileSize etg (cacheitem w)"
  using assms
  by (auto simp: updateCache_def select_count_def write_tx_def upsert_spec_def Let_def
        filter_empty_conv split: if_splits)

lemma updateCache_failed:
  assumes "fst (updateCache e w repo itemPath lastMod fileSize etg) \<noteq> None"
  shows "cacheitem (snd (updateCache e w repo itemPath lastMod fileSize etg)) = cacheitem w"
  using assms
  by (auto simp: updateCache_def select_count_def write_tx_def Let_def split: if_splits)

lemma upsert_spec_facts:
  assumes inv: "distinct (map row_key t)"
  shows "distinct (map row_key (upsert_spec now repo itemPath lastMod fileSize etg t))"
    and "filter (has_key repo itemPath) (upsert_spec now repo itemPath lastMod fileSize etg t) =
         [\<lparr>reponame = repo, pathname = itemPath, lastmodified = lastMod,
           filesize = fileSize, etag = etg, updatedate = now\<rparr>]"
    and "filter (\<lambda>r. \<not> has_key repo itemPath r) (upsert_spec now repo itemPath lastMod fileSize etg t) =
         filter (\<lambda>r. \<not> has_key repo itemPath r) t"
    and "length (upsert_spec now repo itemPath lastMod fileSize etg t) =
         (if \<exists>r \<in> set t. has_key repo itemPath r then length t else length t + 1)"
proof -
  show "distinct (map row_key (upsert_spec now repo itemPath lastMod fileSize etg t))"
    using inv by (auto simp: upsert_spec_def row_key_update_rows insert_row_facts(3))
  show "filter (has_key repo itemPath) (upsert_spec now repo itemPath lastMod fileSize etg t) =
         [\<lparr>reponame = repo, pathname = itemPath, lastmodified = lastMod,
           filesize = fileSize, etag = etg, updatedate = now\<rparr>]"
    using inv by (auto simp: upsert_spec_def update_rows_one insert_row_facts(1))
  show "filter (\<lambda>r. \<not> has_key repo itemPath r) (upsert_spec now repo itemPath lastMod fileSize etg t) =
         filter (\<lambda>r. \<not> has_key repo itemPath r) t"
    by (auto simp: upsert_spec_def update_rows_other insert_row_facts(2))
  show "length (upsert_spec now repo itemPath lastMod fileSize etg t) =
         (if \<exists>r \<in> set t. has_key repo itemPath r then length t else length t + 1)"
    by (auto simp: upsert_spec_def length_update_rows insert_row_def)
qed

lemma upd_run_alone:
  "fst (upd_run e [0, 0] (w, [new_task repo itemPath lastMod fileSize etg])) =
     snd (updateCache e w repo itemPath lastMod fileSize etg)"
  by (auto simp: upd_run_def upd_step_def task_step_def new_task_def updateCache_def
        split: sum.splits prod.splits)

lemma write_tx_rows:
  assumes "r \<in> set (cacheitem (snd (write_tx e w count repo itemPath lastMod fileSize etg)))"
  shows "r \<in> set (cacheitem w) \<or>
         (lastmodified r = lastMod \<and> filesize r = fileSize \<and> etag r = etg \<and>
          updatedate r = clock e)"
  using assms
  by (auto simp: write_tx_def insert_row_def update_rows_def Let_def split: if_splits)


lemma fetch_and_store_reply:
  shows "Get e targetUrl = Inl x \<Longrightarrow>
           fst (fetch_and_store e w repoName rest targetUrl cachePath mimeType contentLength) =
             Reply (HttpError 500 ''FETCH ERROR'')"
    and "Get e targetUrl = Inr respGet \<Longrightarrow> StatusCode respGet < 400 \<Longrightarrow>
         fst (Create e (fs w) cachePath) \<noteq> None \<Longrightarrow>
           fst (fetch_and_store e w repoName rest targetUrl cachePath mimeType contentLength) =
             Reply (HttpError 500 ''CACHE CREATE ERROR'')"
  by (auto simp: fetch_and_store_def Let_def split: prod.splits option.splits)

subsection \<open>C1: where the blob is written\<close>




subsection \<open>C2: one descriptor for each key\<close>

text \<open>
  Claim C2, as amended. When a call of \<^verbatim>\<open>updateCache\<close> runs with no other write to the
  table between its count and its transaction, and the table has at most one row for each
  key before the call, then it has at most one row for each key after it. A call that
  succeeds leaves exactly one row for its key, with the new values: it inserts the row
  when the key had none, so the table grows by one, and overwrites the row when the key
  had one, so the table keeps its length; the rows of the other keys are untouched. A call
  that fails leaves the table as it was.
\<close>

theorem updateCache_keeps_one_row_per_key:
  assumes inv: "one_row_per_key (cacheitem w)"
  shows "let result = updateCache e w repo itemPath lastMod fileSize etg;
             row = \<lparr>reponame = repo, pathname = itemPath, lastmodified = lastMod,
                    filesize = fileSize, etag = etg, updatedate = clock e\<rparr>;
             other = (\<lambda>r. \<not> has_key repo itemPath r)
         in one_row_per_key (cacheitem (snd result)) \<and>
            (fst result = None \<longrightarrow>
               filter (has_key repo itemPath) (cacheitem (snd result)) = [row] \<and>
               filter other (cacheitem (snd result)) = filter other (cacheitem w) \<and>
               length (cacheitem (snd result)) =
                 (if \<exists>r \<in> set (cacheitem w). has_key repo itemPath r
                  then length (cacheitem w) else length (cacheitem w) + 1)) \<and>
            (fst result \<noteq> None \<longrightarrow> cacheitem (snd result) = cacheitem w)"
proof (cases "fst (updateCache e w repo itemPath lastMod fileSize etg) = None")
  case True
  from inv have d: "distinct (map row_key (cacheitem w))" by (simp add: one_row_per_key_def)
  show ?thesis
    using True upsert_spec_facts [OF d]
    by (simp add: Let_def updateCache_ok one_row_per_key_def)
next
  case False
  with inv updateCache_failed [OF False] show ?thesis by (simp add: Let_def del: not_None_eq)
qed

theorem updateCache_keeps_one_row_per_key_witness:
  "one_row_per_key (cacheitem ex_cached) \<and>
   fst (updateCache ex_env ex_cached ''pkgs'' ''a/b.tar'' ''Tue'' 6 ''xyz'') = None \<and>
   (\<exists>r \<in> set (cacheitem ex_cached). has_key ''pkgs'' ''a/b.tar'' r) \<and>
   one_row_per_key (cacheitem (snd (updateCache ex_env ex_cached ''pkgs'' ''a/b.tar'' ''Tue'' 6 ''xyz''))) \<and>
   filter (has_key ''pkgs'' ''a/b.tar'')
     (cacheitem (snd (updateCache ex_env ex_cached ''pkgs'' ''a/b.tar'' ''Tue'' 6 ''xyz''))) =
     [\<lparr>reponame = ''pkgs'', pathname = ''a/b.tar'', lastmodified = ''Tue'',
       filesize = 6, etag = ''xyz'', updatedate = clock ex_env\<rparr>] \<and>
   filter (\<lambda>r. \<not> has_key ''pkgs'' ''a/b.tar'' r)
     (cacheitem (snd (updateCache ex_env ex_cached ''pkgs'' ''a/b.tar'' ''Tue'' 6 ''xyz''))) =
     filter (\<lambda>r. \<not> has_key ''pkgs'' ''a/b.tar'' r) (cacheitem ex_cached) \<and>
   length (cacheitem (snd (updateCache ex_env ex_cached ''pkgs'' ''a/b.tar'' ''Tue'' 6 ''xyz''))) =
     length (cacheitem ex_cached)"
proof -
  have inv: "one_row_per_key (cacheitem ex_cached)"
    by code_simp
  have succeeds: "fst (updateCache ex_env ex_cached ''pkgs'' ''a/b.tar'' ''Tue'' 6 ''xyz'') = None"
    by code_simp
  have present: "\<exists>r \<in> set (cacheitem ex_cached). has_key ''pkgs'' ''a/b.tar'' r"
    by code_simp
  from updateCache_keeps_one_row_per_key
         [OF inv, where e = ex_env and repo = "''pkgs''" and itemPath = "''a/b.tar''"
            and lastMod = "''Tue''" and fileSize = 6 and etg = "''xyz''"]
       inv succeeds present
  show ?thesis by (simp add: Let_def)
qed

text \<open>
  Claim C2 as stated fails when two calls overlap. Two requests for the same path, both a
  MISS on an empty table, both count no row before either writes: both insert, and the key
  has two rows.
\<close>

theorem overlapping_calls_store_key_twice:
  "one_row_per_key (cacheitem ex_world) \<and>
   cacheitem (fst (upd_run ex_env [0, 1, 0, 1]
      (ex_world, [new_task ''pkgs'' ''a/b.tar'' ''Mon'' 6 ''abc'',
                  new_task ''pkgs'' ''a/b.tar'' ''Mon'' 6 ''abc'']))) = [ex_row, ex_row] \<and>
   \<not> one_row_per_key (cacheitem (fst (upd_run ex_env [0, 1, 0, 1]
      (ex_world, [new_task ''pkgs'' ''a/b.tar'' ''Mon'' 6 ''abc'',
                  new_task ''pkgs'' ''a/b.tar'' ''Mon'' 6 ''abc'']))))"
  by code_simp

subsection \<open>C3: the upsert is a check followed by a write\<close>

text \<open>
  Claim C3, as amended. \<^verbatim>\<open>updateCache\<close> is two operations, the count of the rows with
  the key, sent outside the transaction, and a transaction with the one \<^verbatim>\<open>INSERT\<close> or
  \<^verbatim>\<open>UPDATE\<close> that the count chose: the call is the run of these two steps. When
  nothing runs between them and the call succeeds, the table after it is the one the
  insert-or-update of the specification gives. The statement of the transaction writes
  \<^verbatim>\<open>lastmodified\<close>, \<^verbatim>\<open>filesize\<close>, \<^verbatim>\<open>etag\<close> and \<^verbatim>\<open>updatedate\<close> of a row together:
  every row of the table after the transaction is a row of the table before it or has all
  four new values.
\<close>

theorem updateCache_is_a_count_then_one_write:
  "fst (upd_run e [0, 0] (w, [new_task repo itemPath lastMod fileSize etg])) =
     snd (updateCache e w repo itemPath lastMod fileSize etg) \<and>
   (fst (updateCache e w repo itemPath lastMod fileSize etg) = None \<longrightarrow>
      cacheitem (snd (updateCache e w repo itemPath lastMod fileSize etg)) =
        upsert_spec (clock e) repo itemPath lastMod fileSize etg (cacheitem w)) \<and>
   (\<forall>count. \<forall>r \<in> set (cacheitem (snd (write_tx e w count repo itemPath lastMod fileSize etg))).
      r \<in> set (cacheitem w) \<or>
      (lastmodified r = lastMod \<and> filesize r = fileSize \<and> etag r = etg \<and>
       updatedate r = clock e))"
  using upd_run_alone [of e w repo itemPath lastMod fileSize etg]
        updateCache_ok [of e w repo itemPath lastMod fileSize etg]
        write_tx_rows [of _ e w _ repo itemPath lastMod fileSize etg]
  by blast

theorem updateCache_is_a_count_then_one_write_witness:
  "fst (updateCache ex_env ex_cached ''pkgs'' ''a/b.tar'' ''Tue'' 6 ''xyz'') = None \<and>
   fst (upd_run ex_env [0, 0] (ex_cached, [new_task ''pkgs'' ''a/b.tar'' ''Tue'' 6 ''xyz''])) =
     snd (updateCache ex_env ex_cached ''pkgs'' ''a/b.tar'' ''Tue'' 6 ''xyz'') \<and>
   cacheitem (snd (updateCache ex_env ex_cached ''pkgs'' ''a/b.tar'' ''Tue'' 6 ''xyz'')) =
     upsert_spec (clock ex_env) ''pkgs'' ''a/b.tar'' ''Tue'' 6 ''xyz'' (cacheitem ex_cached) \<and>
   ex_row\<lparr>lastmodified := ''Tue'', etag := ''xyz''\<rparr> \<in>
     set (cacheitem (snd (write_tx ex_env ex_cached 1 ''pkgs'' ''a/b.tar'' ''Tue'' 6 ''xyz''))) \<and>
   ex_row\<lparr>lastmodified := ''Tue'', etag := ''xyz''\<rparr> \<notin> set (cacheitem ex_cached) \<and>
   lastmodified (ex_row\<lparr>lastmodified := ''Tue'', etag := ''xyz''\<rparr>) = ''Tue'' \<and>
   filesize (ex_row\<lparr>lastmodified := ''Tue'', etag := ''xyz''\<rparr>) = 6 \<and>
   etag (ex_row\<lparr>lastmodified := ''Tue'', etag := ''xyz''\<rparr>) = ''xyz'' \<and>
   updatedate (ex_row\<lparr>lastmodified := ''Tue'', etag := ''xyz''\<rparr>) = clock ex_env"
proof -
  have succeeds: "fst (updateCache ex_env ex_cached ''pkgs'' ''a/b.tar'' ''Tue'' 6 ''xyz'') = None"
    by code_simp
  have written: "ex_row\<lparr>lastmodified := ''Tue'', etag := ''xyz''\<rparr> \<in>
     set (cacheitem (snd (write_tx ex_env ex_cached 1 ''pkgs'' ''a/b.tar'' ''Tue'' 6 ''xyz'')))"
    by code_simp
  have new: "ex_row\<lparr>lastmodified := ''Tue'', etag := ''xyz''\<rparr> \<notin> set (cacheitem ex_cached)"
    by code_simp
  from updateCache_is_a_count_then_one_write
         [of ex_env ex_cached "''pkgs''" "''a/b.tar''" "''Tue''" 6 "''xyz''"]
       succeeds written new
  show ?thesis by blast
qed

text \<open>
  Claim C3 as stated fails: the check and the write are not one atomic unit. When a second
  call runs between the count and the transaction of a first one, the table is not the one
  that the two upserts give in either order.
\<close>

theorem overlapping_calls_are_no_upsert:
  "cacheitem (fst (upd_run ex_env [0, 1, 1, 0]
      (ex_world, [new_task ''pkgs'' ''a/b.tar'' ''Mon'' 6 ''abc'',
                  new_task ''pkgs'' ''a/b.tar'' ''Tue'' 6 ''xyz'']))) =
     [ex_row\<lparr>lastmodified := ''Tue'', etag := ''xyz''\<rparr>, ex_row] \<and>
   upsert_spec 7 ''pkgs'' ''a/b.tar'' ''Tue'' 6 ''xyz''
     (upsert_spec 7 ''pkgs'' ''a/b.tar'' ''Mon'' 6 ''abc'' []) =
     [ex_row\<lparr>lastmodified := ''Tue'', etag := ''xyz''\<rparr>] \<and>
   upsert_spec 7 ''pkgs'' ''a/b.tar'' ''Mon'' 6 ''abc''
     (upsert_spec 7 ''pkgs'' ''a/b.tar'' ''Tue'' 6 ''xyz'' []) = [ex_row]"
  by code_simp

subsection \<open>C4: when a request is a HIT\<close>

text \<open>
  Claim C4, as amended. A request that reached the freshness check is a HIT, served with
  \<^verbatim>\<open>http.ServeFile\<close> from the cache path, exactly when the lookup returns a row for the
  key (the first one, should there be several) whose \<^verbatim>\<open>lastmodified\<close>, \<^verbatim>\<open>filesize\<close>
  and \<^verbatim>\<open>etag\<close> equal the values of the probe's headers, and \<^verbatim>\<open>os.Stat\<close> on the cache
  path does not report that the path does not exist: the condition of the handler is
  \<^verbatim>\<open>!os.IsNotExist(err)\<close>, which also holds when \<^verbatim>\<open>os.Stat\<close> fails with another
  error. A HIT sends the probe and nothing else to the upstream; any other request that
  reached the check sends the full fetch. A request with no stored descriptor is never a
  HIT.
\<close>

theorem hit_iff_descriptor_matches_and_stat_not_absent:
  assumes route: "SplitN2 (TrimPrefix urlPath ''/r/'') CHR ''/'' = [repoName, rest]"
      and repo: "getRepoMap e (repomap w) repoName = Inr baseURL"
      and probe: "Head e (TrimSuffix baseURL ''/'' @ ''/'' @ rest) = Inr respHead"
  shows "let target = TrimSuffix baseURL ''/'' @ ''/'' @ rest;
             prepared = cache_dir_prepared e (sent w ''HEAD'' target) repoName rest;
             hit = (fst (mainHandler e urlPath w) = Reply (ServeFile (fst prepared)))
         in (hit \<longleftrightarrow>
               (\<exists>r. select_item e (cacheitem w) repoName rest = Inr r \<and>
                    lastmodified r = Last_Modified respHead \<and>
                    filesize r = ParseInt (Content_Length respHead) \<and>
                    etag r = Etag respHead) \<and>
               \<not> IsNotExist (Stat e (fs (snd prepared)) (fst prepared))) \<and>
            (hit \<longrightarrow> upstream (snd (mainHandler e urlPath w)) =
                       upstream w @ [(''HEAD'', target)]) \<and>
            (\<not> hit \<longrightarrow> upstream (snd (mainHandler e urlPath w)) =
                       upstream w @ [(''HEAD'', target), (''GET'', target)]) \<and>
            (find (has_key repoName rest) (cacheitem w) = None \<longrightarrow> \<not> hit)"
proof -
  have absent: "find (has_key repoName rest) (cacheitem w) = None \<Longrightarrow>
                  \<forall>r. select_item e (cacheitem w) repoName rest \<noteq> Inr r"
    by (simp add: select_item_def)
  show ?thesis
    using absent
    by (auto simp: mainHandler_probed [OF route repo probe] Let_def itemInCache_True_iff
          fetch_and_store_not_ServeFile fetch_and_store_sends cache_dir_prepared_same)
qed

theorem hit_iff_descriptor_matches_and_stat_not_absent_witness:
  "SplitN2 (TrimPrefix ''/r/pkgs/a/b.tar'' ''/r/'') CHR ''/'' = [''pkgs'', ''a/b.tar''] \<and>
   getRepoMap ex_env (repomap ex_cached) ''pkgs'' = Inr ''https://example.org/repo/'' \<and>
   Head ex_env (TrimSuffix ''https://example.org/repo/'' ''/'' @ ''/'' @ ''a/b.tar'') = Inr ex_probe \<and>
   select_item ex_env (cacheitem ex_cached) ''pkgs'' ''a/b.tar'' = Inr ex_row \<and>
   lastmodified ex_row = Last_Modified ex_probe \<and>
   filesize ex_row = ParseInt (Content_Length ex_probe) \<and>
   etag ex_row = Etag ex_probe \<and>
   fst (cache_dir_prepared ex_env
          (sent ex_cached ''HEAD'' (TrimSuffix ''https://example.org/repo/'' ''/'' @ ''/'' @ ''a/b.tar''))
          ''pkgs'' ''a/b.tar'') = ''/cache/pkgs/a/b.tar'' \<and>
   \<not> IsNotExist (Stat ex_env
        (fs (snd (cache_dir_prepared ex_env
          (sent ex_cached ''HEAD'' (TrimSuffix ''https://example.org/repo/'' ''/'' @ ''/'' @ ''a/b.tar''))
          ''pkgs'' ''a/b.tar''))) ''/cache/pkgs/a/b.tar'') \<and>
   fst (mainHandler ex_env ''/r/pkgs/a/b.tar'' ex_cached) = Reply (ServeFile ''/cache/pkgs/a/b.tar'') \<and>
   upstream (snd (mainHandler ex_env ''/r/pkgs/a/b.tar'' ex_cached)) =
     upstream ex_cached @
       [(''HEAD'', TrimSuffix ''https://example.org/repo/'' ''/'' @ ''/'' @ ''a/b.tar'')]"
proof -
  have route: "SplitN2 (TrimPrefix ''/r/pkgs/a/b.tar'' ''/r/'') CHR ''/'' = [''pkgs'', ''a/b.tar'']"
    by code_simp
  have repo: "getRepoMap ex_env (repomap ex_cached) ''pkgs'' = Inr ''https://example.org/repo/''"
    by code_simp
  have probe: "Head ex_env (TrimSuffix ''https://example.org/repo/'' ''/'' @ ''/'' @ ''a/b.tar'') =
                 Inr ex_probe"
    by (simp add: ex_env_def)
  have row: "select_item ex_env (cacheitem ex_cached) ''pkgs'' ''a/b.tar'' = Inr ex_row"
    by code_simp
  have same: "lastmodified ex_row = Last_Modified ex_probe"
    "filesize ex_row = ParseInt (Content_Length ex_probe)" "etag ex_row = Etag ex_probe"
    by code_simp+
  have path: "fst (cache_dir_prepared ex_env
          (sent ex_cached ''HEAD'' (TrimSuffix ''https://example.org/repo/'' ''/'' @ ''/'' @ ''a/b.tar''))
          ''pkgs'' ''a/b.tar'') = ''/cache/pkgs/a/b.tar''"
    by code_simp
  have there: "\<not> IsNotExist (Stat ex_env
        (fs (snd (cache_dir_prepared ex_env
          (sent ex_cached ''HEAD'' (TrimSuffix ''https://example.org/repo/'' ''/'' @ ''/'' @ ''a/b.tar''))
          ''pkgs'' ''a/b.tar''))) ''/cache/pkgs/a/b.tar'')"
    by code_simp
  from hit_iff_descriptor_matches_and_stat_not_absent [OF route repo probe]
       route repo probe row same path there
  show ?thesis by (simp add: Let_def)
qed

text \<open>
  Claim C4 as stated fails in one direction: with a matching descriptor and no file at the
  cache path, a permission error from \<^verbatim>\<open>os.Stat\<close> makes the request a HIT.
\<close>

theorem hit_although_no_blob_file_exists:
  "fst (mainHandler (ex_env\<lparr>stat_fault := Some ErrPermission\<rparr>) ''/r/pkgs/a/b.tar''
          (ex_world\<lparr>cacheitem := [ex_row]\<rparr>)) = Reply (ServeFile ''/cache/pkgs/a/b.tar'') \<and>
   fs (snd (mainHandler (ex_env\<lparr>stat_fault := Some ErrPermission\<rparr>) ''/r/pkgs/a/b.tar''
          (ex_world\<lparr>cacheitem := [ex_row]\<rparr>))) ''/cache/pkgs/a/b.tar'' = None \<and>
   upstream (snd (mainHandler (ex_env\<lparr>stat_fault := Some ErrPermission\<rparr>) ''/r/pkgs/a/b.tar''
          (ex_world\<lparr>cacheitem := [ex_row]\<rparr>))) = [(''HEAD'', ''https://example.org/repo/a/b.tar'')]"
  by code_simp

subsection \<open>C5: the weak-validator prefix\<close>

text \<open>
  Claim C5 asks for the prefix \<^verbatim>\<open>W/\<close> to be stripped from the entity tag before the
  comparison and before the storage. The handler strips it before the storage only: the
  tag of the probe goes to \<^verbatim>\<open>itemInCache\<close> as the upstream sent it. With an upstream
  whose tag is \<^verbatim>\<open>W/"abc"\<close>, the first request stores the stripped tag, and the second
  request, whose probe is the same, compares the unstripped tag with it and fetches again,
  although the stripped tag would have matched.
\<close>

theorem weak_etag_is_compared_unstripped:
  "map etag (cacheitem (snd (mainHandler ex_env_weak ''/r/pkgs/a/b.tar'' ex_world))) =
     [TrimPrefix weak_tag ''W/''] \<and>
   upstream (snd (mainHandler ex_env_weak ''/r/pkgs/a/b.tar''
                    (snd (mainHandler ex_env_weak ''/r/pkgs/a/b.tar'' ex_world)))) =
     [(''HEAD'', ''https://example.org/repo/a/b.tar''), (''GET'', ''https://example.org/repo/a/b.tar''),
      (''HEAD'', ''https://example.org/repo/a/b.tar''), (''GET'', ''https://example.org/repo/a/b.tar'')] \<and>
   fst (itemInCache ex_env_weak
          (cacheitem (snd (mainHandler ex_env_weak ''/r/pkgs/a/b.tar'' ex_world)))
          ''pkgs'' ''a/b.tar'' ''Mon'' 6 weak_tag) = False \<and>
   fst (itemInCache ex_env_weak
          (cacheitem (snd (mainHandler ex_env_weak ''/r/pkgs/a/b.tar'' ex_world)))
          ''pkgs'' ''a/b.tar'' ''Mon'' 6 (TrimPrefix weak_tag ''W/'')) = True"
  by code_simp

subsection \<open>C6: one pass to the client and to the blob\<close>

text \<open>
  Claim C6, as amended. On the MISS path, once the fetch is answered with a status below 400
  and the file is created, the body goes through \<^verbatim>\<open>io.Copy\<close> to the client and to the
  file in one pass. The bytes in the file are a prefix of the bytes written to the client,
  which are a prefix of the body, so both get the same bytes in the same order as far as
  each gets them. A write that fails on either sink ends the copy with that error: the
  client's failure leaves the file without the part being written, the file's failure
  comes after the client got the part, and no later part is written. When no sink write
  fails, the bytes delivered to the client are the bytes in the blob at the cache path
  when the handler returns; when the copy returns no error, both are the whole body.
\<close>

theorem miss_copies_same_bytes_to_client_and_blob:
  assumes fetch: "Get e targetUrl = Inr respGet"
      and ok: "StatusCode respGet < 400"
      and created: "fst (Create e (fs w) cachePath) = None"
  shows "let copied = stream_copy e respGet;
             client = written (fst (fst copied));
             blob = written (snd (fst copied));
             result = fetch_and_store e w repoName rest targetUrl cachePath mimeType contentLength
         in outcome_body (fst result) = Some client \<and>
            fs (snd result) cachePath = Some (RegularFile blob) \<and>
            prefix blob client \<and> prefix client (concat (Body respGet)) \<and>
            (snd copied \<noteq> Some ErrWrite \<longrightarrow> client = blob) \<and>
            (snd copied = None \<longrightarrow> client = concat (Body respGet) \<and> blob = concat (Body respGet)) \<and>
            (\<forall>ws p ps rd ws' err. p \<noteq> [] \<and> MultiWriter_Write ws p = (ws', Some err) \<longrightarrow>
                io_Copy ws (p # ps) rd = (ws', Some err)) \<and>
            (\<forall>ws p c' n err. sink_Write (fst ws) p = (c', n, Some err) \<longrightarrow>
                MultiWriter_Write ws p = ((c', snd ws), Some err)) \<and>
            (\<forall>ws p c' f' m err. sink_Write (fst ws) p = (c', length p, None) \<and>
                sink_Write (snd ws) p = (f', m, Some err) \<longrightarrow>
                MultiWriter_Write ws p = ((c', f'), Some err))"
proof -
  obtain c' f' err where copied: "stream_copy e respGet = ((c', f'), err)"
    by (cases "stream_copy e respGet") auto
  from stream_copy_written [OF copied] copied
       fetch_and_store_streamed(1,2) [OF fetch ok created, of repoName rest mimeType contentLength]
  show ?thesis
    by (auto simp: Let_def MultiWriter_client_failure MultiWriter_file_failure)
qed

theorem miss_copies_same_bytes_to_client_and_blob_witness:
  "Get ex_env ''https://example.org/repo/a/b.tar'' = Inr ex_response \<and>
   StatusCode ex_response < 400 \<and>
   fst (Create ex_env (fs ex_probed) ''/cache/pkgs/a/b.tar'') = None \<and>
   snd (stream_copy ex_env ex_response) = None \<and>
   concat (Body ex_response) = ''abcdef'' \<and>
   outcome_body (fst (fetch_and_store ex_env ex_probed ''pkgs'' ''a/b.tar''
                        ''https://example.org/repo/a/b.tar'' ''/cache/pkgs/a/b.tar''
                        ''application/octet-stream'' 6)) = Some ''abcdef'' \<and>
   fs (snd (fetch_and_store ex_env ex_probed ''pkgs'' ''a/b.tar''
              ''https://example.org/repo/a/b.tar'' ''/cache/pkgs/a/b.tar''
              ''application/octet-stream'' 6)) ''/cache/pkgs/a/b.tar'' =
     Some (RegularFile ''abcdef'') \<and>
   MultiWriter_Write (\<lparr>written = [], room = None\<rparr>, \<lparr>written = [], room = Some 2\<rparr>) ''abc'' =
     ((\<lparr>written = ''abc'', room = None\<rparr>, \<lparr>written = ''ab'', room = Some 0\<rparr>), Some ErrWrite) \<and>
   io_Copy (\<lparr>written = [], room = None\<rparr>, \<lparr>written = [], room = Some 2\<rparr>) [''abc'', ''def''] False =
     ((\<lparr>written = ''abc'', room = None\<rparr>, \<lparr>written = ''ab'', room = Some 0\<rparr>), Some ErrWrite)"
proof -
  have fetch: "Get ex_env ''https://example.org/repo/a/b.tar'' = Inr ex_response"
    by (simp add: ex_env_def)
  have ok: "StatusCode ex_response < 400"
    by (simp add: ex_response_def)
  have created: "fst (Create ex_env (fs ex_probed) ''/cache/pkgs/a/b.tar'') = None"
    by code_simp
  have copied: "snd (stream_copy ex_env ex_response) = None"
    by code_simp
  have body: "concat (Body ex_response) = ''abcdef''"
    by code_simp
  have full: "MultiWriter_Write (\<lparr>written = [], room = None\<rparr>, \<lparr>written = [], room = Some 2\<rparr>)
                ''abc'' =
     ((\<lparr>written = ''abc'', room = None\<rparr>, \<lparr>written = ''ab'', room = Some 0\<rparr>), Some ErrWrite)"
    by code_simp
  from miss_copies_same_bytes_to_client_and_blob
         [OF fetch ok created, where repoName = "''pkgs''" and rest = "''a/b.tar''"
            and mimeType = "''application/octet-stream''" and contentLength = 6]
       fetch ok created copied body full
  show ?thesis by (simp add: Let_def)
qed

text \<open>
  Claim C6 as stated fails when a sink write fails: the bytes delivered to the client and
  the bytes in the blob differ. With a file sink that accepts four bytes, the client gets
  the six bytes of the body and the blob at the cache path holds four.
\<close>

theorem client_and_blob_differ_after_sink_failure:
  "outcome_body (fst (mainHandler (ex_env\<lparr>file_room := Some 4\<rparr>) ''/r/pkgs/a/b.tar'' ex_world)) =
     Some ''abcdef'' \<and>
   fs (snd (mainHandler (ex_env\<lparr>file_room := Some 4\<rparr>) ''/r/pkgs/a/b.tar'' ex_world))
     ''/cache/pkgs/a/b.tar'' = Some (RegularFile ''abcd'')"
  by code_simp

subsection \<open>C7: a stream error\<close>

text \<open>
  Claim C7, as amended. When the copy fails, the handler logs \<^verbatim>\<open>ERR_STREAM\<close> and
  returns: it writes no status and no diagnostic body for the error, so the response keeps
  the status 200 it got with the first write (or gets on return) and the bytes already
  written to the client; it does not write the descriptor; the file at the cache path
  stays, with the bytes written to it so far.
\<close>

theorem stream_error_is_logged_and_not_surfaced:
  assumes fetch: "Get e targetUrl = Inr respGet"
      and ok: "StatusCode respGet < 400"
      and created: "fst (Create e (fs w) cachePath) = None"
      and failed: "snd (stream_copy e respGet) \<noteq> None"
  shows "let copied = stream_copy e respGet;
             result = fetch_and_store e w repoName rest targetUrl cachePath mimeType contentLength
         in fst result = Reply (Streamed mimeType (written (fst (fst copied)))) \<and>
            outcome_status (fst result) = Some 200 \<and>
            logs (snd result) =
              logs w @ [''INFO_CACHE_MISS'', ''DBG_HEAD'', ''DBG_RESP'', ''ERR_STREAM''] \<and>
            cacheitem (snd result) = cacheitem w \<and>
            fs (snd result) cachePath = Some (RegularFile (written (snd (fst copied))))"
  using fetch_and_store_streamed [OF fetch ok created, of repoName rest mimeType contentLength] failed
  by (simp add: Let_def)

theorem stream_error_is_logged_and_not_surfaced_witness:
  "Get (ex_env\<lparr>file_room := Some 2\<rparr>) ''https://example.org/repo/a/b.tar'' = Inr ex_response \<and>
   StatusCode ex_response < 400 \<and>
   fst (Create (ex_env\<lparr>file_room := Some 2\<rparr>) (fs ex_probed) ''/cache/pkgs/a/b.tar'') = None \<and>
   snd (stream_copy (ex_env\<lparr>file_room := Some 2\<rparr>) ex_response) \<noteq> None \<and>
   written (fst (fst (stream_copy (ex_env\<lparr>file_room := Some 2\<rparr>) ex_response))) = ''abc'' \<and>
   written (snd (fst (stream_copy (ex_env\<lparr>file_room := Some 2\<rparr>) ex_response))) = ''ab'' \<and>
   fst (fetch_and_store (ex_env\<lparr>file_room := Some 2\<rparr>) ex_probed ''pkgs'' ''a/b.tar''
          ''https://example.org/repo/a/b.tar'' ''/cache/pkgs/a/b.tar''
          ''application/octet-stream'' 6) =
     Reply (Streamed ''application/octet-stream'' ''abc'') \<and>
   outcome_status (fst (fetch_and_store (ex_env\<lparr>file_room := Some 2\<rparr>) ex_probed ''pkgs''
          ''a/b.tar'' ''https://example.org/repo/a/b.tar'' ''/cache/pkgs/a/b.tar''
          ''application/octet-stream'' 6)) = Some 200 \<and>
   logs (snd (fetch_and_store (ex_env\<lparr>file_room := Some 2\<rparr>) ex_probed ''pkgs'' ''a/b.tar''
          ''https://example.org/repo/a/b.tar'' ''/cache/pkgs/a/b.tar''
          ''application/octet-stream'' 6)) =
     logs ex_probed @ [''INFO_CACHE_MISS'', ''DBG_HEAD'', ''DBG_RESP'', ''ERR_STREAM''] \<and>
   cacheitem (snd (fetch_and_store (ex_env\<lparr>file_room := Some 2\<rparr>) ex_probed ''pkgs'' ''a/b.tar''
          ''https://example.org/repo/a/b.tar'' ''/cache/pkgs/a/b.tar''
          ''application/octet-stream'' 6)) = cacheitem ex_probed \<and>
   fs (snd (fetch_and_store (ex_env\<lparr>file_room := Some 2\<rparr>) ex_probed ''pkgs'' ''a/b.tar''
          ''https://example.org/repo/a/b.tar'' ''/cache/pkgs/a/b.tar''
          ''application/octet-stream'' 6)) ''/cache/pkgs/a/b.tar'' = Some (RegularFile ''ab'')"
proof -
  have fetch: "Get (ex_env\<lparr>file_room := Some 2\<rparr>) ''https://example.org/repo/a/b.tar'' =
                 Inr ex_response"
    by (simp add: ex_env_def)
  have ok: "StatusCode ex_response < 400"
    by (simp add: ex_response_def)
  have created: "fst (Create (ex_env\<lparr>file_room := Some 2\<rparr>) (fs ex_probed)
                        ''/cache/pkgs/a/b.tar'') = None"
    by code_simp
  have failed: "snd (stream_copy (ex_env\<lparr>file_room := Some 2\<rparr>) ex_response) \<noteq> None"
    by code_simp
  have sinks: "written (fst (fst (stream_copy (ex_env\<lparr>file_room := Some 2\<rparr>) ex_response))) = ''abc''"
    "written (snd (fst (stream_copy (ex_env\<lparr>file_room := Some 2\<rparr>) ex_response))) = ''ab''"
    by code_simp+
  from stream_error_is_logged_and_not_surfaced
         [OF fetch ok created failed, where repoName = "''pkgs''" and rest = "''a/b.tar''"
            and mimeType = "''application/octet-stream''" and contentLength = 6]
       fetch ok created failed sinks
  show ?thesis by (simp add: Let_def)
qed

text \<open>
  Claim C7 as stated asks for a 500 with a diagnostic body. With a file sink that accepts
  two bytes (a full disk), the client has the first part of the body under status 200, and
  the two bytes are in the file at the cache path.
\<close>

theorem stream_error_reply_is_not_a_server_error:
  "outcome_status (fst (mainHandler (ex_env\<lparr>file_room := Some 2\<rparr>) ''/r/pkgs/a/b.tar'' ex_world)) =
     Some 200 \<and>
   outcome_body (fst (mainHandler (ex_env\<lparr>file_room := Some 2\<rparr>) ''/r/pkgs/a/b.tar'' ex_world)) =
     Some ''abc'' \<and>
   last (logs (snd (mainHandler (ex_env\<lparr>file_room := Some 2\<rparr>) ''/r/pkgs/a/b.tar'' ex_world))) =
     ''ERR_STREAM'' \<and>
   fs (snd (mainHandler (ex_env\<lparr>file_room := Some 2\<rparr>) ''/r/pkgs/a/b.tar'' ex_world))
     ''/cache/pkgs/a/b.tar'' = Some (RegularFile ''ab'')"
  by code_simp

subsection \<open>C8: an upstream error on the full fetch\<close>

text \<open>
  Claim C8. When the handler sends the full fetch and the upstream answers it with a status
  of 400 or more, the client gets that status code with the upstream's status text, no
  descriptor is written (the table is the one before the request) and no blob is written
  (the regular files of the cache directory and their contents are the ones before the
  request).
\<close>

theorem upstream_error_surfaced_without_cache_mutation:
  assumes fetched: "upstream (snd (mainHandler e urlPath w)) =
                      upstream w @ [(''HEAD'', url), (''GET'', url)]"
      and resp: "Get e url = Inr respGet"
      and bad: "400 \<le> StatusCode respGet"
  shows "fst (mainHandler e urlPath w) =
           Reply (HttpError (StatusCode respGet) (''UPSTREAM ERROR '' @ Status respGet)) \<and>
         cacheitem (snd (mainHandler e urlPath w)) = cacheitem w \<and>
         (\<forall>p bs. (fs (snd (mainHandler e urlPath w)) p = Some (RegularFile bs)) =
                  (fs w p = Some (RegularFile bs)))"
proof -
  from mainHandler_cases [of e urlPath w] fetched
  obtain target repoName rest mimeType contentLength where
    run: "mainHandler e urlPath w =
       fetch_and_store e (snd (cache_dir_prepared e (sent w ''HEAD'' target) repoName rest))
         repoName rest target (fst (cache_dir_prepared e (sent w ''HEAD'' target) repoName rest))
         mimeType contentLength"
    by (auto simp: cache_dir_prepared_same)
  from fetched run have "target = url"
    by (simp add: fetch_and_store_sends cache_dir_prepared_same)
  with run resp bad show ?thesis
    by (simp add: fetch_and_store_upstream_error cache_dir_prepared_same cache_dir_prepared_files)
qed

theorem upstream_error_surfaced_without_cache_mutation_witness:
  "upstream (snd (mainHandler ex_env_503 ''/r/pkgs/a/b.tar'' ex_world)) =
     upstream ex_world @ [(''HEAD'', ''https://example.org/repo/a/b.tar''),
                          (''GET'', ''https://example.org/repo/a/b.tar'')] \<and>
   Get ex_env_503 ''https://example.org/repo/a/b.tar'' =
     Inr (ex_response\<lparr>StatusCode := 503, Status := ''503 Service Unavailable''\<rparr>) \<and>
   400 \<le> StatusCode (ex_response\<lparr>StatusCode := 503, Status := ''503 Service Unavailable''\<rparr>) \<and>
   fst (mainHandler ex_env_503 ''/r/pkgs/a/b.tar'' ex_world) =
     Reply (HttpError 503 ''UPSTREAM ERROR 503 Service Unavailable'') \<and>
   cacheitem (snd (mainHandler ex_env_503 ''/r/pkgs/a/b.tar'' ex_world)) = [] \<and>
   (\<forall>p bs. fs (snd (mainHandler ex_env_503 ''/r/pkgs/a/b.tar'' ex_world)) p \<noteq>
            Some (RegularFile bs))"
proof -
  have fetched: "upstream (snd (mainHandler ex_env_503 ''/r/pkgs/a/b.tar'' ex_world)) =
     upstream ex_world @ [(''HEAD'', ''https://example.org/repo/a/b.tar''),
                          (''GET'', ''https://example.org/repo/a/b.tar'')]"
    by code_simp
  have resp: "Get ex_env_503 ''https://example.org/repo/a/b.tar'' =
     Inr (ex_response\<lparr>StatusCode := 503, Status := ''503 Service Unavailable''\<rparr>)"
    by (simp add: ex_env_503_def ex_env_def)
  have bad: "400 \<le> StatusCode (ex_response\<lparr>StatusCode := 503,
                                              Status := ''503 Service Unavailable''\<rparr>)"
    by simp
  from upstream_error_surfaced_without_cache_mutation [OF fetched resp bad] fetched resp bad
  show ?thesis by (simp add: ex_world_def)
qed

subsection \<open>C9: a failed lookup is a MISS\<close>

text \<open>
  Claim C9. Whenever the lookup of the descriptor fails during freshness validation, for
  lack of a row or for any other error, \<^verbatim>\<open>itemInCache\<close> answers \<open>False\<close> with no error,
  and the handler goes on with the MISS path: it logs \<^verbatim>\<open>INFO_CACHE_MISS\<close>, sends the
  full fetch to the upstream after the probe, and its reply is the one the fetch decides.
  The client gets an error reply only when the fetch itself fails (500), the upstream
  answers with a status of 400 or more (that status) or the file cannot be created (500);
  otherwise it gets the body, under status 200, and the blob is written. The failed
  lookup is in none of these replies. The hypotheses say that the request reached the
  lookup: the path has two components, the repository is mapped and the probe was
  answered.
\<close>

theorem lookup_failure_falls_through_to_miss:
  assumes route: "SplitN2 (TrimPrefix urlPath ''/r/'') CHR ''/'' = [repoName, rest]"
      and repo: "getRepoMap e (repomap w) repoName = Inr baseURL"
      and probe: "Head e (TrimSuffix baseURL ''/'' @ ''/'' @ rest) = Inr respHead"
      and failure: "select_item e (cacheitem w) repoName rest = Inl err"
  shows "let target = TrimSuffix baseURL ''/'' @ ''/'' @ rest;
             prepared = cache_dir_prepared e (sent w ''HEAD'' target) repoName rest;
             result = mainHandler e urlPath w
         in itemInCache e (cacheitem w) repoName rest (Last_Modified respHead)
              (ParseInt (Content_Length respHead)) (Etag respHead) = (False, None) \<and>
            result = fetch_and_store e (snd prepared) repoName rest target (fst prepared)
                       (mimeType_of respHead) (ParseInt (Content_Length respHead)) \<and>
            upstream (snd result) = upstream w @ [(''HEAD'', target), (''GET'', target)] \<and>
            logs (snd prepared) @ [''INFO_CACHE_MISS''] =
              take (Suc (length (logs (snd prepared)))) (logs (snd result)) \<and>
            (\<forall>x. Get e target = Inl x \<longrightarrow>
               fst result = Reply (HttpError 500 ''FETCH ERROR'')) \<and>
            (\<forall>respGet. Get e target = Inr respGet \<and> 400 \<le> StatusCode respGet \<longrightarrow>
               fst result = Reply (HttpError (StatusCode respGet)
                                     (''UPSTREAM ERROR '' @ Status respGet))) \<and>
            (\<forall>respGet. Get e target = Inr respGet \<and> StatusCode respGet < 400 \<and>
               fst (Create e (fs (snd prepared)) (fst prepared)) \<noteq> None \<longrightarrow>
               fst result = Reply (HttpError 500 ''CACHE CREATE ERROR'')) \<and>
            (\<forall>respGet. Get e target = Inr respGet \<and> StatusCode respGet < 400 \<and>
               fst (Create e (fs (snd prepared)) (fst prepared)) = None \<longrightarrow>
               fst result = Reply (Streamed (mimeType_of respHead)
                                     (written (fst (fst (stream_copy e respGet))))) \<and>
               fs (snd result) (fst prepared) =
                 Some (RegularFile (written (snd (fst (stream_copy e respGet))))))"
proof -
  have miss: "itemInCache e (cacheitem w) repoName rest (Last_Modified respHead)
                (ParseInt (Content_Length respHead)) (Etag respHead) = (False, None)"
    using failure by (simp add: itemInCache_def)
  have run: "mainHandler e urlPath w =
      fetch_and_store e
        (snd (cache_dir_prepared e (sent w ''HEAD'' (TrimSuffix baseURL ''/'' @ ''/'' @ rest))
                repoName rest))
        repoName rest (TrimSuffix baseURL ''/'' @ ''/'' @ rest)
        (fst (cache_dir_prepared e (sent w ''HEAD'' (TrimSuffix baseURL ''/'' @ ''/'' @ rest))
                repoName rest))
        (mimeType_of respHead) (ParseInt (Content_Length respHead))"
    using miss mainHandler_probed [OF route repo probe] by (simp add: Let_def)
  have logged: "\<And>e w repoName rest targetUrl cachePath mimeType contentLength.
      logs w @ [''INFO_CACHE_MISS''] =
        take (Suc (length (logs w)))
          (logs (snd (fetch_and_store e w repoName rest targetUrl cachePath mimeType contentLength)))"
    by (auto simp: fetch_and_store_def Let_def case_prod_beta updateCache_def write_tx_def
          select_count_def split: sum.splits option.splits)
  show ?thesis
    unfolding Let_def run
    using miss logged
    by (auto simp: fetch_and_store_sends cache_dir_prepared_same fetch_and_store_reply
          fetch_and_store_upstream_error fetch_and_store_streamed simp del: not_None_eq)
qed

theorem lookup_failure_falls_through_to_miss_witness:
  "SplitN2 (TrimPrefix ''/r/pkgs/a/b.tar'' ''/r/'') CHR ''/'' = [''pkgs'', ''a/b.tar''] \<and>
   getRepoMap (ex_env\<lparr>lookup_fault := True\<rparr>) (repomap ex_cached) ''pkgs'' =
     Inr ''https://example.org/repo/'' \<and>
   Head (ex_env\<lparr>lookup_fault := True\<rparr>)
     (TrimSuffix ''https://example.org/repo/'' ''/'' @ ''/'' @ ''a/b.tar'') = Inr ex_probe \<and>
   select_item (ex_env\<lparr>lookup_fault := True\<rparr>) (cacheitem ex_cached) ''pkgs'' ''a/b.tar'' =
     Inl ErrDB \<and>
   Get (ex_env\<lparr>lookup_fault := True\<rparr>)
     (TrimSuffix ''https://example.org/repo/'' ''/'' @ ''/'' @ ''a/b.tar'') = Inr ex_response \<and>
   StatusCode ex_response < 400 \<and>
   fst (Create (ex_env\<lparr>lookup_fault := True\<rparr>)
          (fs (snd (cache_dir_prepared (ex_env\<lparr>lookup_fault := True\<rparr>)
                      (sent ex_cached ''HEAD''
                         (TrimSuffix ''https://example.org/repo/'' ''/'' @ ''/'' @ ''a/b.tar''))
                      ''pkgs'' ''a/b.tar'')))
          (fst (cache_dir_prepared (ex_env\<lparr>lookup_fault := True\<rparr>)
                  (sent ex_cached ''HEAD''
                     (TrimSuffix ''https://example.org/repo/'' ''/'' @ ''/'' @ ''a/b.tar''))
                  ''pkgs'' ''a/b.tar''))) = None \<and>
   written (fst (fst (stream_copy (ex_env\<lparr>lookup_fault := True\<rparr>) ex_response))) = ''abcdef'' \<and>
   itemInCache (ex_env\<lparr>lookup_fault := True\<rparr>) (cacheitem ex_cached) ''pkgs'' ''a/b.tar''
     (Last_Modified ex_probe) (ParseInt (Content_Length ex_probe)) (Etag ex_probe) =
     (False, None) \<and>
   upstream (snd (mainHandler (ex_env\<lparr>lookup_fault := True\<rparr>) ''/r/pkgs/a/b.tar'' ex_cached)) =
     upstream ex_cached @
       [(''HEAD'', TrimSuffix ''https://example.org/repo/'' ''/'' @ ''/'' @ ''a/b.tar''),
        (''GET'', TrimSuffix ''https://example.org/repo/'' ''/'' @ ''/'' @ ''a/b.tar'')] \<and>
   fst (mainHandler (ex_env\<lparr>lookup_fault := True\<rparr>) ''/r/pkgs/a/b.tar'' ex_cached) =
     Reply (Streamed (mimeType_of ex_probe) ''abcdef'')"
proof -
  have route: "SplitN2 (TrimPrefix ''/r/pkgs/a/b.tar'' ''/r/'') CHR ''/'' = [''pkgs'', ''a/b.tar'']"
    by code_simp
  have repo: "getRepoMap (ex_env\<lparr>lookup_fault := True\<rparr>) (repomap ex_cached) ''pkgs'' =
                Inr ''https://example.org/repo/''"
    by code_simp
  have probe: "Head (ex_env\<lparr>lookup_fault := True\<rparr>)
     (TrimSuffix ''https://example.org/repo/'' ''/'' @ ''/'' @ ''a/b.tar'') = Inr ex_probe"
    by (simp add: ex_env_def)
  have failure: "select_item (ex_env\<lparr>lookup_fault := True\<rparr>) (cacheitem ex_cached)
                   ''pkgs'' ''a/b.tar'' = Inl ErrDB"
    by (simp add: select_item_def)
  have fetch: "Get (ex_env\<lparr>lookup_fault := True\<rparr>)
     (TrimSuffix ''https://example.org/repo/'' ''/'' @ ''/'' @ ''a/b.tar'') = Inr ex_response"
    by (simp add: ex_env_def)
  have ok: "StatusCode ex_response < 400"
    by (simp add: ex_response_def)
  have created: "fst (Create (ex_env\<lparr>lookup_fault := True\<rparr>)
          (fs (snd (cache_dir_prepared (ex_env\<lparr>lookup_fault := True\<rparr>)
                      (sent ex_cached ''HEAD''
                         (TrimSuffix ''https://example.org/repo/'' ''/'' @ ''/'' @ ''a/b.tar''))
                      ''pkgs'' ''a/b.tar'')))
          (fst (cache_dir_prepared (ex_env\<lparr>lookup_fault := True\<rparr>)
                  (sent ex_cached ''HEAD''
                     (TrimSuffix ''https://example.org/repo/'' ''/'' @ ''/'' @ ''a/b.tar''))
                  ''pkgs'' ''a/b.tar''))) = None"
    by code_simp
  have client: "written (fst (fst (stream_copy (ex_env\<lparr>lookup_fault := True\<rparr>) ex_response))) =
                  ''abcdef''"
    by code_simp
  note fall = lookup_failure_falls_through_to_miss [OF route repo probe failure, unfolded Let_def]
  from fall fetch ok created have served:
    "fst (mainHandler (ex_env\<lparr>lookup_fault := True\<rparr>) ''/r/pkgs/a/b.tar'' ex_cached) =
       Reply (Streamed (mimeType_of ex_probe)
                (written (fst (fst (stream_copy (ex_env\<lparr>lookup_fault := True\<rparr>) ex_response)))))"
    by blast
  from served client have reply:
    "fst (mainHandler (ex_env\<lparr>lookup_fault := True\<rparr>) ''/r/pkgs/a/b.tar'' ex_cached) =
       Reply (Streamed (mimeType_of ex_probe) ''abcdef'')"
    by simp
  from fall reply route repo probe failure fetch ok created client
  show ?thesis by blast
qed

subsection \<open>C10: a request path without a second component\<close>

text \<open>
  Claim C10. When the URL path, once the prefix \<^verbatim>\<open>/r/\<close> is removed, has no \<^verbatim>\<open>/\<close>,
  \<^verbatim>\<open>strings.SplitN\<close> returns one element and \<^verbatim>\<open>mainHandler\<close> indexes element 1 of it:
  the handler panics, whatever the environment and the state, and writes no response.
\<close>

theorem mainHandler_panics_without_slash:
  "CHR ''/'' \<notin> set (TrimPrefix urlPath ''/r/'') \<Longrightarrow>
     SplitN2 (TrimPrefix urlPath ''/r/'') CHR ''/'' = [TrimPrefix urlPath ''/r/''] \<and>
     mainHandler e urlPath w = (Panic, w)"
  by (simp add: mainHandler_def SplitN2_def)

theorem mainHandler_panics_without_slash_witness:
  "CHR ''/'' \<notin> set (TrimPrefix ''/r/pkgs'' ''/r/'') \<and>
   SplitN2 (TrimPrefix ''/r/pkgs'' ''/r/'') CHR ''/'' = [TrimPrefix ''/r/pkgs'' ''/r/''] \<and>
   mainHandler ex_env ''/r/pkgs'' ex_world = (Panic, ex_world)"
  using mainHandler_panics_without_slash [of "''/r/pkgs''" ex_env ex_world]
  by (simp add: TrimPrefix_def)

end
